theory Spec2Isabelle
  imports Main "HOL-Library.Sublist"
begin

section \<open>Go strings and the library functions the manager calls\<close>

text \<open>
  A Go string is a sequence of bytes, here a \<open>string\<close> (a list of 8-bit \<open>char\<close>s).
  Text outside ASCII is UTF-8: the library functions that work on runes
  (\<open>strings.ToLower\<close>, \<open>strings.TrimSpace\<close>, \<open>strings.Fields\<close>) decode it, and
  an invalid byte decodes to the rune \<open>RuneError\<close> of width 1.
\<close>

abbreviation byte :: "char \<Rightarrow> nat" where
  "byte c \<equiv> of_char c"

definition isASCII :: "char \<Rightarrow> bool" where
  "isASCII c = (byte c < 128)"

definition isUpperAZ :: "char \<Rightarrow> bool" where
  "isUpperAZ c = (65 \<le> byte c \<and> byte c \<le> 90)"

definition isLowerAZ :: "char \<Rightarrow> bool" where
  "isLowerAZ c = (97 \<le> byte c \<and> byte c \<le> 122)"

definition isDigit :: "char \<Rightarrow> bool" where
  "isDigit c = (48 \<le> byte c \<and> byte c \<le> 57)"

definition lowerASCII :: "char \<Rightarrow> char" where
  "lowerASCII c = (if isUpperAZ c then char_of (byte c + 32) else c)"

subsection \<open>UTF-8 (package unicode/utf8)\<close>

definition RuneError :: nat where
  "RuneError = 65533"

definition isCont :: "char \<Rightarrow> bool" where
  "isCont c = (128 \<le> byte c \<and> byte c \<le> 191)"

text \<open>\<open>utf8.DecodeRuneInString\<close>: the first rune of the string and its width in bytes.\<close>

fun DecodeRune :: "string \<Rightarrow> nat \<times> nat" where
  "DecodeRune [] = (RuneError, 0)"
| "DecodeRune (c # cs) =
     (let b0 = byte c in
      if b0 < 128 then (b0, 1)
      else if 194 \<le> b0 \<and> b0 \<le> 223 then
        (case cs of
           c1 # _ \<Rightarrow>
             if isCont c1 then ((b0 mod 32) * 64 + byte c1 mod 64, 2) else (RuneError, 1)
         | [] \<Rightarrow> (RuneError, 1))
      else if 224 \<le> b0 \<and> b0 \<le> 239 then
        (case cs of
           c1 # c2 # _ \<Rightarrow>
             if (if b0 = 224 then 160 else 128) \<le> byte c1
                \<and> byte c1 \<le> (if b0 = 237 then 159 else 191) \<and> isCont c2
             then ((b0 mod 16) * 4096 + (byte c1 mod 64) * 64 + byte c2 mod 64, 3)
             else (RuneError, 1)
         | _ \<Rightarrow> (RuneError, 1))
      else if 240 \<le> b0 \<and> b0 \<le> 244 then
        (case cs of
           c1 # c2 # c3 # _ \<Rightarrow>
             if (if b0 = 240 then 144 else 128) \<le> byte c1
                \<and> byte c1 \<le> (if b0 = 244 then 143 else 191) \<and> isCont c2 \<and> isCont c3
             then ((b0 mod 8) * 262144 + (byte c1 mod 64) * 4096
                   + (byte c2 mod 64) * 64 + byte c3 mod 64, 4)
             else (RuneError, 1)
         | _ \<Rightarrow> (RuneError, 1))
      else (RuneError, 1))"

text \<open>\<open>utf8.AppendRune\<close>: a surrogate or a rune past U+10FFFF is written as \<open>RuneError\<close>.\<close>

definition EncodeRune :: "nat \<Rightarrow> string" where
  "EncodeRune r =
     (if r < 128 then [char_of r]
      else if r < 2048 then [char_of (192 + r div 64), char_of (128 + r mod 64)]
      else if 1114111 < r \<or> (55296 \<le> r \<and> r \<le> 57343) then
        [char_of (239::nat), char_of (191::nat), char_of (189::nat)]
      else if r < 65536 then
        [char_of (224 + r div 4096), char_of (128 + (r div 64) mod 64), char_of (128 + r mod 64)]
      else
        [char_of (240 + r div 262144), char_of (128 + (r div 4096) mod 64),
         char_of (128 + (r div 64) mod 64), char_of (128 + r mod 64)])"

text \<open>
  \<open>strings.Map(mapping, s)\<close> for a mapping that drops no rune: every rune of \<open>s\<close> is
  decoded, mapped and encoded again. The counter is the number of bytes of the current
  rune still to skip.
\<close>

fun MapRunes :: "(nat \<Rightarrow> nat) \<Rightarrow> nat \<Rightarrow> string \<Rightarrow> string" where
  "MapRunes f k [] = []"
| "MapRunes f k (c # cs) =
     (if 0 < k then MapRunes f (k - 1) cs
      else EncodeRune (f (fst (DecodeRune (c # cs))))
           @ MapRunes f (snd (DecodeRune (c # cs)) - 1) cs)"

text \<open>
  \<open>unicode.ToLower\<close>. Its case table for the runes outside ASCII belongs to the Go
  library and is a parameter \<open>tbl\<close> of the model; inside ASCII the function is the code
  of the library.
\<close>

definition unicodeToLower :: "(nat \<Rightarrow> nat) \<Rightarrow> nat \<Rightarrow> nat" where
  "unicodeToLower tbl r =
     (if r \<le> 127 then (if 65 \<le> r \<and> r \<le> 90 then r + 32 else r) else tbl r)"

text \<open>\<open>strings.ToLower\<close>: the ASCII fast path, else \<open>Map(unicode.ToLower, s)\<close>.\<close>

definition ToLower :: "(nat \<Rightarrow> nat) \<Rightarrow> string \<Rightarrow> string" where
  "ToLower tbl s =
     (if list_all isASCII s then map lowerASCII s
      else MapRunes (unicodeToLower tbl) 0 s)"

text \<open>A case table that leaves every rune outside ASCII as it is, for evaluating on ASCII text.\<close>

definition plainTable :: "nat \<Rightarrow> nat" where
  "plainTable r = r"

subsection \<open>Package strings\<close>

fun Contains :: "string \<Rightarrow> string \<Rightarrow> bool" where
  "Contains [] sub = (sub = [])"
| "Contains (c # cs) sub = (prefix sub (c # cs) \<or> Contains cs sub)"

definition HasPrefix :: "string \<Rightarrow> string \<Rightarrow> bool" where
  "HasPrefix s p = prefix p s"

definition HasSuffix :: "string \<Rightarrow> string \<Rightarrow> bool" where
  "HasSuffix s p = suffix p s"

definition TrimPrefix :: "string \<Rightarrow> string \<Rightarrow> string" where
  "TrimPrefix s p = (if prefix p s then drop (length p) s else s)"

definition TrimSuffix :: "string \<Rightarrow> string \<Rightarrow> string" where
  "TrimSuffix s p = (if suffix p s then take (length s - length p) s else s)"

text \<open>
  \<open>strings.ReplaceAll(s, old, new)\<close> for a non-empty \<open>old\<close>, which is how every call
  of the program has it (\<open>"_"\<close>, \<open>" "\<close>, \<open>"\r"\<close>, \<open>"{repo}"\<close>): the matches are taken
  from the left and do not overlap.
\<close>

function ReplaceAll :: "string \<Rightarrow> string \<Rightarrow> string \<Rightarrow> string" where
  "ReplaceAll s old new =
     (if old = [] \<or> s = [] then s
      else if prefix old s then new @ ReplaceAll (drop (length old) s) old new
      else hd s # ReplaceAll (tl s) old new)"
  by pat_completeness auto
termination
  by (relation "measure (\<lambda>(s, old, new). length s)") auto

declare ReplaceAll.simps [simp del]

text \<open>
  \<open>strings.Trim(s, cutset)\<close> for a cutset of ASCII characters (\<open>"-/"\<close> and \<open>"-"\<close> in
  the program): the bytes of the cutset are removed from both ends.
\<close>

definition Trim :: "string \<Rightarrow> string \<Rightarrow> string" where
  "Trim s cutset =
     rev (dropWhile (\<lambda>c. c \<in> set cutset) (rev (dropWhile (\<lambda>c. c \<in> set cutset) s)))"

text \<open>
  \<open>unicode.IsSpace\<close> holds of six ASCII characters and of U+0085, U+00A0, U+1680,
  U+2000 to U+200A, U+2028, U+2029, U+202F, U+205F and U+3000. A space is decoded exactly
  where its UTF-8 encoding stands, so the functions that look for spaces are written
  over these encodings.
\<close>

definition spaceEncodings :: "string list" where
  "spaceEncodings =
     [[CHR 0x09], [CHR 0x0A], [CHR 0x0B], [CHR 0x0C], [CHR 0x0D], [CHR 0x20],
      [CHR 0xC2, CHR 0x85], [CHR 0xC2, CHR 0xA0], [CHR 0xE1, CHR 0x9A, CHR 0x80],
      [CHR 0xE2, CHR 0x80, CHR 0x80], [CHR 0xE2, CHR 0x80, CHR 0x81],
      [CHR 0xE2, CHR 0x80, CHR 0x82], [CHR 0xE2, CHR 0x80, CHR 0x83],
      [CHR 0xE2, CHR 0x80, CHR 0x84], [CHR 0xE2, CHR 0x80, CHR 0x85],
      [CHR 0xE2, CHR 0x80, CHR 0x86], [CHR 0xE2, CHR 0x80, CHR 0x87],
      [CHR 0xE2, CHR 0x80, CHR 0x88], [CHR 0xE2, CHR 0x80, CHR 0x89],
      [CHR 0xE2, CHR 0x80, CHR 0x8A], [CHR 0xE2, CHR 0x80, CHR 0xA8],
      [CHR 0xE2, CHR 0x80, CHR 0xA9], [CHR 0xE2, CHR 0x80, CHR 0xAF],
      [CHR 0xE2, CHR 0x81, CHR 0x9F], [CHR 0xE3, CHR 0x80, CHR 0x80]]"

text \<open>The number of bytes of the space at the start (at the end) of a string; 0 when there is none.\<close>

definition spaceAtStart :: "string \<Rightarrow> nat" where
  "spaceAtStart s = (case find (\<lambda>e. prefix e s) spaceEncodings of None \<Rightarrow> 0 | Some e \<Rightarrow> length e)"

definition spaceAtEnd :: "string \<Rightarrow> nat" where
  "spaceAtEnd s = (case find (\<lambda>e. suffix e s) spaceEncodings of None \<Rightarrow> 0 | Some e \<Rightarrow> length e)"

lemma spaceAtStart_le: "spaceAtStart s \<le> length s"
  by (auto simp: spaceAtStart_def find_Some_iff prefix_length_le split: option.splits)

lemma spaceAtEnd_le: "spaceAtEnd s \<le> length s"
  by (auto simp: spaceAtEnd_def find_Some_iff suffix_length_le split: option.splits)

function TrimLeftSpace :: "string \<Rightarrow> string" where
  "TrimLeftSpace s = (if spaceAtStart s = 0 then s else TrimLeftSpace (drop (spaceAtStart s) s))"
  by pat_completeness auto
termination
proof (relation "measure length")
  fix s :: string assume "spaceAtStart s \<noteq> 0"
  with spaceAtStart_le [of s] show "(drop (spaceAtStart s) s, s) \<in> measure length"
    by (cases s) auto
qed simp

function TrimRightSpace :: "string \<Rightarrow> string" where
  "TrimRightSpace s =
     (if spaceAtEnd s = 0 then s else TrimRightSpace (take (length s - spaceAtEnd s) s))"
  by pat_completeness auto
termination
proof (relation "measure length")
  fix s :: string assume "spaceAtEnd s \<noteq> 0"
  with spaceAtEnd_le [of s] show "(take (length s - spaceAtEnd s) s, s) \<in> measure length"
    by (cases s) auto
qed simp

declare TrimLeftSpace.simps [simp del] TrimRightSpace.simps [simp del]

definition TrimSpace :: "string \<Rightarrow> string" where
  "TrimSpace s = TrimRightSpace (TrimLeftSpace s)"


subsection \<open>Package regexp: the patterns of the manager\<close>

text \<open>
  \<open>re.ReplaceAllString(s, rep)\<close> for a pattern \<open>[class]+\<close> and a literal \<open>rep\<close>: every
  maximal run of characters of the class becomes one \<open>rep\<close>. The flag says that the
  previous character was of the class. A class that is the complement of a set of ASCII
  characters holds of every byte of a rune outside ASCII and of every invalid byte, so
  a run of such runes is a run of such bytes.
\<close>

fun replaceRuns :: "(char \<Rightarrow> bool) \<Rightarrow> string \<Rightarrow> bool \<Rightarrow> string \<Rightarrow> string" where
  "replaceRuns P rep inRun [] = []"
| "replaceRuns P rep inRun (c # cs) =
     (if P c then (if inRun then [] else rep) @ replaceRuns P rep True cs
      else c # replaceRuns P rep False cs)"

text \<open>The class \<open>[a-z0-9/-]\<close> of \<open>slugBadRe\<close> and the class \<open>[A-Za-z0-9._-]\<close> of \<open>safeNameRe\<close>.\<close>

definition slugChar :: "char \<Rightarrow> bool" where
  "slugChar c = (isLowerAZ c \<or> isDigit c \<or> c = CHR ''/'' \<or> c = CHR ''-'')"

definition safeChar :: "char \<Rightarrow> bool" where
  "safeChar c =
     (isUpperAZ c \<or> isLowerAZ c \<or> isDigit c \<or> c = CHR ''.'' \<or> c = CHR ''_'' \<or> c = CHR ''-'')"

definition slugBadRe_ReplaceAllString :: "string \<Rightarrow> string \<Rightarrow> string" where
  "slugBadRe_ReplaceAllString s rep = replaceRuns (\<lambda>c. \<not> slugChar c) rep False s"

definition slashRe_ReplaceAllString :: "string \<Rightarrow> string \<Rightarrow> string" where
  "slashRe_ReplaceAllString s rep = replaceRuns (\<lambda>c. c = CHR ''/'') rep False s"

definition dashRe_ReplaceAllString :: "string \<Rightarrow> string \<Rightarrow> string" where
  "dashRe_ReplaceAllString s rep = replaceRuns (\<lambda>c. c = CHR ''-'') rep False s"

definition safeNameRe_ReplaceAllString :: "string \<Rightarrow> string \<Rightarrow> string" where
  "safeNameRe_ReplaceAllString s rep = replaceRuns (\<lambda>c. \<not> safeChar c) rep False s"

text \<open>\<open>typeRe\<close>, \<open>^(feat|fix|chore|docs|refactor|test)$\<close>; \<open>$\<close> is the end of the text.\<close>

definition typeRe_MatchString :: "string \<Rightarrow> bool" where
  "typeRe_MatchString s = (s \<in> set [''feat'', ''fix'', ''chore'', ''docs'', ''refactor'', ''test''])"

section \<open>Errors\<close>

text \<open>
  A Go \<open>error\<close> is its message; \<open>NotExistError\<close> is an error of the file system for
  which \<open>errors.Is(err, os.ErrNotExist)\<close> holds.
\<close>

datatype error = Error string | NotExistError string

fun errorText :: "error \<Rightarrow> string" where
  "errorText (Error m) = m"
| "errorText (NotExistError m) = m"

fun isNotExist :: "error \<Rightarrow> bool" where
  "isNotExist (Error m) = False"
| "isNotExist (NotExistError m) = True"

definition ErrNotGitRepo :: error where
  "ErrNotGitRepo = Error ''run this command inside a git worktree''"

section \<open>Branch names (manager.go, Slugify and MakeBranchName)\<close>

text \<open>The six rewriting steps of \<open>Slugify\<close>, in the order of the source.\<close>

definition slugSteps :: "(nat \<Rightarrow> nat) \<Rightarrow> string \<Rightarrow> string" where
  "slugSteps tbl input =
     (let slug = ToLower tbl input;
          slug = ReplaceAll slug ''_'' ''-'';
          slug = ReplaceAll slug '' '' ''-'';
          slug = slugBadRe_ReplaceAllString slug ''-'';
          slug = slashRe_ReplaceAllString slug ''/'';
          slug = dashRe_ReplaceAllString slug ''-'';
          slug = Trim slug ''-/''
      in slug)"

definition Slugify :: "(nat \<Rightarrow> nat) \<Rightarrow> string \<Rightarrow> error + string" where
  "Slugify tbl input =
     (let slug = slugSteps tbl input in
      if slug = [] then Inl (Error ''feature name resolves to empty slug'') else Inr slug)"

definition MakeBranchName :: "(nat \<Rightarrow> nat) \<Rightarrow> string \<Rightarrow> string \<Rightarrow> error + string" where
  "MakeBranchName tbl branchType name =
     (if \<not> typeRe_MatchString branchType then
        Inl (Error (''invalid type '' @ [CHR 0x27] @ branchType @ [CHR 0x27]
                    @ '' (expected: feat|fix|chore|docs|refactor|test)''))
      else case Slugify tbl name of
             Inl err \<Rightarrow> Inl err
           | Inr slug \<Rightarrow> Inr (branchType @ ''/'' @ slug))"

section \<open>Paths (package path/filepath on Unix)\<close>

text \<open>\<open>filepath.Base\<close>: the last element of the path, after its trailing slashes are removed.\<close>

definition Base :: "string \<Rightarrow> string" where
  "Base path =
     (if path = [] then ''.''
      else
        let p = rev (dropWhile (\<lambda>c. c = CHR ''/'') (rev path));
            e = rev (takeWhile (\<lambda>c. c \<noteq> CHR ''/'') (rev p))
        in if e = [] then ''/'' else e)"

section \<open>Session names (manager.go, safeName to tmuxWorktreeSessionName)\<close>

text \<open>The fields of \<open>Config\<close> that the modelled functions read.\<close>

record Config =
  BaseBranch :: string
  WorktreeRootTemplate :: string
  SessionPrefix :: string

definition DefaultConfig :: Config where
  "DefaultConfig =
     \<lparr>BaseBranch = ''main'', WorktreeRootTemplate = ''../{repo}.worktrees'',
      SessionPrefix = ''sprout''\<rparr>"

record Worktree =
  Path :: string
  Branch :: string
  Current :: bool
  Dirty :: bool
  TmuxState :: string
  AgentState :: string

definition safeName :: "string \<Rightarrow> string" where
  "safeName v =
     (let s = safeNameRe_ReplaceAllString v ''-'';
          s = dashRe_ReplaceAllString s ''-'';
          s = Trim s ''-''
      in if s = [] then ''default'' else s)"

text \<open>
  \<open>tmuxSessionName\<close> asks git for the name of the repository (\<open>m.RepoName(repoRoot)\<close>);
  the argument \<open>repoName\<close> is that answer.
\<close>

definition tmuxSessionName :: "Config \<Rightarrow> string \<Rightarrow> string" where
  "tmuxSessionName cfg repoName =
     (let repo = safeName repoName;
          pfx = safeName (SessionPrefix cfg)
      in if pfx = [] then repo else pfx @ ''-'' @ repo)"

definition worktreeBranchOrName :: "Worktree \<Rightarrow> string" where
  "worktreeBranchOrName wt = (if Branch wt = [] then Base (Path wt) else Branch wt)"

definition tmuxWorktreeSessionNameFrom :: "Config \<Rightarrow> string \<Rightarrow> string \<Rightarrow> string \<Rightarrow> string" where
  "tmuxWorktreeSessionNameFrom cfg repoName branch worktreePath =
     (let base = tmuxSessionName cfg repoName;
          token = TrimSpace branch;
          token = (if token = [] then Base worktreePath else token);
          suffix = safeName token
      in if suffix = [] then base
         else let name = base @ ''-'' @ suffix
              in if length name > 100 then take 100 name else name)"

definition tmuxWorktreeSessionName :: "Config \<Rightarrow> string \<Rightarrow> Worktree option \<Rightarrow> string" where
  "tmuxWorktreeSessionName cfg repoName wt =
     (case wt of
        None \<Rightarrow> tmuxSessionName cfg repoName
      | Some w \<Rightarrow> tmuxWorktreeSessionNameFrom cfg repoName (worktreeBranchOrName w) (Path w))"

definition tmuxWindowName :: "string \<Rightarrow> string" where
  "tmuxWindowName branch =
     (let name = safeName branch in if length name > 60 then take 60 name else name)"

definition tmuxAgentWindowName :: "string \<Rightarrow> string" where
  "tmuxAgentWindowName branch =
     (let name = ''agent-'' @ safeName branch in if length name > 60 then take 60 name else name)"

text \<open>The token that \<open>tmuxWorktreeSessionNameFrom\<close> makes safe: the branch, else the directory.\<close>

definition sessionToken :: "string \<Rightarrow> string \<Rightarrow> string" where
  "sessionToken branch worktreePath =
     (if TrimSpace branch = [] then Base worktreePath else TrimSpace branch)"

section \<open>Numbers (package strconv) and the timeout of git worktree commands\<close>

fun parseDigits :: "string \<Rightarrow> int \<Rightarrow> int option" where
  "parseDigits [] acc = Some acc"
| "parseDigits (c # cs) acc =
     (if isDigit c then parseDigits cs (acc * 10 + (of_char c - 48)) else None)"

text \<open>
  \<open>strconv.Atoi\<close> where \<open>int\<close> has 64 bits: an optional sign and decimal digits; a
  syntax error or a value outside the range of \<open>int\<close> is an error (\<open>None\<close>).
\<close>

definition Atoi :: "string \<Rightarrow> int option" where
  "Atoi s =
     (let neg = (s \<noteq> [] \<and> hd s = CHR ''-'');
          ds = (if s \<noteq> [] \<and> (hd s = CHR ''-'' \<or> hd s = CHR ''+'') then tl s else s)
      in if ds = [] then None
         else case parseDigits ds 0 of
                None \<Rightarrow> None
              | Some n \<Rightarrow>
                  let v = (if neg then - n else n)
                  in if - 9223372036854775808 \<le> v \<and> v \<le> 9223372036854775807 then Some v else None)"

text \<open>A \<open>time.Duration\<close> is a number of nanoseconds.\<close>

definition Second :: int where
  "Second = 1000000000"

text \<open>The environment of the process: \<open>os.Getenv\<close> gives the empty string for an unset variable.\<close>

definition Getenv :: "(string \<Rightarrow> string option) \<Rightarrow> string \<Rightarrow> string" where
  "Getenv env k = (case env k of None \<Rightarrow> [] | Some v \<Rightarrow> v)"

definition gitWorktreeCommandTimeout :: "(string \<Rightarrow> string option) \<Rightarrow> int" where
  "gitWorktreeCommandTimeout env =
     (let defaultSeconds = 45; minSeconds = 5; maxSeconds = 600;
          raw = TrimSpace (Getenv env ''SPROUT_GIT_WORKTREE_TIMEOUT_SECONDS'')
      in if raw = [] then defaultSeconds * Second
         else case Atoi raw of
                None \<Rightarrow> defaultSeconds * Second
              | Some seconds \<Rightarrow>
                  let seconds = (if seconds < minSeconds then minSeconds else seconds);
                      seconds = (if seconds > maxSeconds then maxSeconds else seconds)
                  in seconds * Second)"

text \<open>
  The words of the specification: a value is numeric when it is an optional sign and at
  least one decimal digit, and then it has a value; "clamped" is the nearest number of
  the interval from 5 to 600.
\<close>

definition unsigned :: "string \<Rightarrow> string" where
  "unsigned s = (if s \<noteq> [] \<and> (hd s = CHR ''-'' \<or> hd s = CHR ''+'') then tl s else s)"

definition isNumeric :: "string \<Rightarrow> bool" where
  "isNumeric s = (unsigned s \<noteq> [] \<and> list_all isDigit (unsigned s))"

definition numericValue :: "string \<Rightarrow> int" where
  "numericValue s =
     (let n = foldl (\<lambda>acc c. acc * 10 + (of_char c - 48)) (0::int) (unsigned s)
      in if s \<noteq> [] \<and> hd s = CHR ''-'' then - n else n)"

definition clampSeconds :: "int \<Rightarrow> int" where
  "clampSeconds n = max 5 (min 600 n)"

definition timeoutEnv :: "string \<Rightarrow> string \<Rightarrow> string option" where
  "timeoutEnv v k = (if k = ''SPROUT_GIT_WORKTREE_TIMEOUT_SECONDS'' then Some v else None)"

section \<open>The retry heuristic (manager.go, shouldRetryWorktreeAdd and shouldRetryWorktreeRemove)\<close>

text \<open>The argument is \<open>None\<close> for a nil error.\<close>

definition shouldRetryWorktreeAdd :: "(nat \<Rightarrow> nat) \<Rightarrow> error option \<Rightarrow> bool" where
  "shouldRetryWorktreeAdd tbl err =
     (case err of
        None \<Rightarrow> False
      | Some e \<Rightarrow>
          let msg = ToLower tbl (errorText e)
          in if Contains msg ''timed out'' then True
             else if Contains msg ''already checked out'' then True
             else if Contains msg ''already exists'' then True
             else if Contains msg ''already registered'' then True
             else if Contains msg ''unable to create'' then True
             else if Contains msg ''cannot lock'' then True
             else False)"

definition shouldRetryWorktreeRemove :: "(nat \<Rightarrow> nat) \<Rightarrow> error option \<Rightarrow> bool" where
  "shouldRetryWorktreeRemove tbl err =
     (case err of
        None \<Rightarrow> False
      | Some e \<Rightarrow>
          let msg = ToLower tbl (errorText e)
          in if Contains msg ''timed out'' then True
             else if Contains msg ''is locked'' then True
             else if Contains msg ''cannot remove'' then True
             else if Contains msg ''cannot lock'' then True
             else False)"

section \<open>More of the library: splitting, joining and cleaning paths\<close>

text \<open>\<open>strings.Split(s, sep)\<close> and \<open>bytes.Split\<close> for a separator of one byte.\<close>

fun splitOn :: "char \<Rightarrow> string \<Rightarrow> string list" where
  "splitOn k [] = [[]]"
| "splitOn k (c # cs) =
     (if c = k then [] # splitOn k cs
      else case splitOn k cs of
             x # xs \<Rightarrow> (c # x) # xs
           | [] \<Rightarrow> [[c]])"

text \<open>\<open>strings.Join(elems, sep)\<close>.\<close>

fun JoinStr :: "string list \<Rightarrow> string \<Rightarrow> string" where
  "JoinStr [] sep = []"
| "JoinStr [x] sep = x"
| "JoinStr (x # y # ys) sep = x @ sep @ JoinStr (y # ys) sep"

text \<open>\<open>strings.TrimRight(s, cutset)\<close> for a cutset of ASCII characters.\<close>

definition TrimRight :: "string \<Rightarrow> string \<Rightarrow> string" where
  "TrimRight s cutset = rev (dropWhile (\<lambda>c. c \<in> set cutset) (rev s))"

text \<open>
  \<open>filepath.Clean\<close>: the elements of the path are read from the left, an empty element
  and \<open>.\<close> are dropped, \<open>..\<close> removes the element before it, is dropped at the root
  and is kept at the start of a path that is not rooted. The stack holds the elements
  kept so far, the last one first.
\<close>

fun cleanElems :: "bool \<Rightarrow> string list \<Rightarrow> string list \<Rightarrow> string list" where
  "cleanElems rooted stack [] = rev stack"
| "cleanElems rooted stack (e # es) =
     (if e = [] \<or> e = ''.'' then cleanElems rooted stack es
      else if e = ''..'' then
        (case stack of
           prev # rest \<Rightarrow>
             if prev = ''..'' then cleanElems rooted (e # stack) es
             else cleanElems rooted rest es
         | [] \<Rightarrow>
             if rooted then cleanElems rooted stack es
             else cleanElems rooted (e # stack) es)
      else cleanElems rooted (e # stack) es)"

definition Clean :: "string \<Rightarrow> string" where
  "Clean path =
     (if path = [] then ''.''
      else
        let rooted = (hd path = CHR ''/'');
            body = JoinStr (cleanElems rooted [] (splitOn (CHR ''/'') path)) ''/''
        in if rooted then ''/'' @ body
           else if body = [] then ''.'' else body)"

text \<open>\<open>filepath.Join\<close>: the elements from the first non-empty one on, joined and cleaned.\<close>

definition pathJoin :: "string list \<Rightarrow> string" where
  "pathJoin elems =
     (case dropWhile (\<lambda>e. e = []) elems of
        [] \<Rightarrow> []
      | e # es \<Rightarrow> Clean (JoinStr (e # es) ''/''))"

text \<open>\<open>filepath.Dir\<close>: the path up to its last slash, cleaned.\<close>

definition Dir :: "string \<Rightarrow> string" where
  "Dir path = Clean (rev (dropWhile (\<lambda>c. c \<noteq> CHR ''/'') (rev path)))"

definition IsAbs :: "string \<Rightarrow> bool" where
  "IsAbs path = prefix ''/'' path"

text \<open>The order of strings in Go: byte by byte.\<close>

fun strLess :: "string \<Rightarrow> string \<Rightarrow> bool" where
  "strLess [] [] = False"
| "strLess [] (d # ds) = True"
| "strLess (c # cs) [] = False"
| "strLess (c # cs) (d # ds) = (byte c < byte d \<or> (c = d \<and> strLess cs ds))"

text \<open>
  Insertion sort as package sort writes it: an element moves to the left while it is
  less than its left neighbour. The sorted part is held with its last element first.
\<close>

fun insertLeft :: "('a \<Rightarrow> 'a \<Rightarrow> bool) \<Rightarrow> 'a \<Rightarrow> 'a list \<Rightarrow> 'a list" where
  "insertLeft lt x [] = [x]"
| "insertLeft lt x (y # ys) = (if lt x y then y # insertLeft lt x ys else x # y # ys)"

definition insertionSort :: "('a \<Rightarrow> 'a \<Rightarrow> bool) \<Rightarrow> 'a list \<Rightarrow> 'a list" where
  "insertionSort lt xs = rev (foldl (\<lambda>acc x. insertLeft lt x acc) [] xs)"

text \<open>\<open>sort.Strings\<close>.\<close>

definition sortStrings :: "string list \<Rightarrow> string list" where
  "sortStrings xs = insertionSort strLess xs"

section \<open>The host: external programs and the operating system\<close>

text \<open>
  The manager runs git and tmux and calls the operating system. Each such call is
  recorded in a trace, and its answer is given by the host, which may look at all the
  calls made before: an error, or the bytes the call returns (the output of a program,
  the working directory; for \<open>Stat\<close> of a directory the word \<open>dir\<close>).

  \<^item> \<open>Exec dir timeout name args\<close> is \<open>runCmdBytesWithTimeout\<close>, the one place where the
    manager starts a program: the answer is the combined output, or the error that
    function builds from the exit status, the output and the timeout. A timeout of 0 is
    none. The debug log it writes is left out.
  \<^item> \<open>CopyPath src dst\<close> is \<open>copyPath\<close>, which copies a file, a symbolic link or a
    directory tree by calls of the operating system.
  \<^item> \<open>LaunchOrFocusCall repoRoot branch worktreePath attachOutside\<close> is the method
    \<open>LaunchOrFocus\<close>, which builds and focuses the tmux session.

  The host also holds the environment of the process, the case table of the Go library
  for the runes outside ASCII, and \<open>sort.SliceStable\<close> of the Go library.
\<close>

datatype call =
    Exec string int string "string list"
  | Stat string
  | Lstat string
  | MkdirAll string nat
  | CopyPath string string
  | Getwd
  | LookPath string
  | LaunchOrFocusCall string string string bool

record host =
  reply :: "call list \<Rightarrow> call \<Rightarrow> error + string"
  environ :: "string \<Rightarrow> string option"
  lowerTable :: "nat \<Rightarrow> nat"
  sliceStable :: "(Worktree \<Rightarrow> Worktree \<Rightarrow> bool) \<Rightarrow> Worktree list \<Rightarrow> Worktree list"

definition perform :: "host \<Rightarrow> call \<Rightarrow> call list \<Rightarrow> (error + string) \<times> call list" where
  "perform h c t = (reply h t c, t @ [c])"

definition errorOf :: "error + string \<Rightarrow> error option" where
  "errorOf r = (case r of Inl e \<Rightarrow> Some e | Inr out \<Rightarrow> None)"

definition runCmdBytesWithTimeout ::
  "host \<Rightarrow> string \<Rightarrow> int \<Rightarrow> string \<Rightarrow> string list \<Rightarrow> call list \<Rightarrow> (error + string) \<times> call list" where
  "runCmdBytesWithTimeout h dir timeout name args t = perform h (Exec dir timeout name args) t"

definition runCmdBytes ::
  "host \<Rightarrow> string \<Rightarrow> string \<Rightarrow> string list \<Rightarrow> call list \<Rightarrow> (error + string) \<times> call list" where
  "runCmdBytes h dir name args t = runCmdBytesWithTimeout h dir 0 name args t"

definition runCmdOutput ::
  "host \<Rightarrow> string \<Rightarrow> string \<Rightarrow> string list \<Rightarrow> call list \<Rightarrow> (error + string) \<times> call list" where
  "runCmdOutput h dir name args t =
     (case runCmdBytes h dir name args t of
        (Inl err, t1) \<Rightarrow> (Inl err, t1)
      | (Inr out, t1) \<Rightarrow> (Inr (TrimRight out [CHR 0x0A]), t1))"

definition runCmdQuiet ::
  "host \<Rightarrow> string \<Rightarrow> string \<Rightarrow> string list \<Rightarrow> call list \<Rightarrow> error option \<times> call list" where
  "runCmdQuiet h dir name args t =
     (case runCmdBytes h dir name args t of (r, t1) \<Rightarrow> (errorOf r, t1))"

definition runCmdQuietTimeout ::
  "host \<Rightarrow> string \<Rightarrow> int \<Rightarrow> string \<Rightarrow> string list \<Rightarrow> call list \<Rightarrow> error option \<times> call list" where
  "runCmdQuietTimeout h dir timeout name args t =
     (case runCmdBytesWithTimeout h dir timeout name args t of (r, t1) \<Rightarrow> (errorOf r, t1))"

definition commandExists :: "host \<Rightarrow> string \<Rightarrow> call list \<Rightarrow> bool \<times> call list" where
  "commandExists h name t =
     (case perform h (LookPath name) t of (r, t1) \<Rightarrow> (errorOf r = None, t1))"

text \<open>\<open>filepath.Abs\<close> and \<open>absPath\<close>.\<close>

definition Abs :: "host \<Rightarrow> string \<Rightarrow> call list \<Rightarrow> (error + string) \<times> call list" where
  "Abs h path t =
     (if IsAbs path then (Inr (Clean path), t)
      else case perform h Getwd t of
             (Inl err, t1) \<Rightarrow> (Inl err, t1)
           | (Inr wd, t1) \<Rightarrow> (Inr (pathJoin [wd, path]), t1))"

definition absPath :: "host \<Rightarrow> string \<Rightarrow> call list \<Rightarrow> string \<times> call list" where
  "absPath h path t =
     (case Abs h path t of
        (Inl err, t1) \<Rightarrow> (path, t1)
      | (Inr full, t1) \<Rightarrow> (Clean full, t1))"

section \<open>The repository gateway (manager.go)\<close>

definition RequireRepo :: "host \<Rightarrow> call list \<Rightarrow> (error + string) \<times> call list" where
  "RequireRepo h t =
     (case runCmdOutput h [] ''git'' [''rev-parse'', ''--show-toplevel''] t of
        (Inl err, t1) \<Rightarrow> (Inl ErrNotGitRepo, t1)
      | (Inr out, t1) \<Rightarrow> (Inr (TrimSpace out), t1))"

definition RepoName :: "host \<Rightarrow> string \<Rightarrow> call list \<Rightarrow> string \<times> call list" where
  "RepoName h repoRoot t =
     (case runCmdOutput h repoRoot ''git''
             [''rev-parse'', ''--path-format=absolute'', ''--git-common-dir''] t of
        (Inr out, t1) \<Rightarrow> (Base (Dir (TrimSpace out)), t1)
      | (Inl err, t1) \<Rightarrow> (Base repoRoot, t1))"

definition CurrentBranch :: "host \<Rightarrow> string \<Rightarrow> call list \<Rightarrow> string \<times> call list" where
  "CurrentBranch h repoRoot t =
     (case runCmdOutput h repoRoot ''git'' [''symbolic-ref'', ''--quiet'', ''--short'', ''HEAD''] t of
        (Inl err, t1) \<Rightarrow> ([], t1)
      | (Inr out, t1) \<Rightarrow> (TrimSpace out, t1))"

definition BranchExists :: "host \<Rightarrow> string \<Rightarrow> string \<Rightarrow> call list \<Rightarrow> bool \<times> call list" where
  "BranchExists h repoRoot branch t =
     (case runCmdOutput h repoRoot ''git''
             [''show-ref'', ''--verify'', ''--quiet'', ''refs/heads/'' @ branch] t of
        (r, t1) \<Rightarrow> (errorOf r = None, t1))"

definition ResolveBaseBranch ::
  "host \<Rightarrow> Config \<Rightarrow> string \<Rightarrow> string \<Rightarrow> call list \<Rightarrow> (error + string) \<times> call list" where
  "ResolveBaseBranch h cfg repoRoot requested t =
     (if requested \<noteq> [] then
        (case BranchExists h repoRoot requested t of
           (False, t1) \<Rightarrow> (Inl (Error (''base branch not found: '' @ requested)), t1)
         | (True, t1) \<Rightarrow> (Inr requested, t1))
      else
        case BranchExists h repoRoot (BaseBranch cfg) t of
          (True, t1) \<Rightarrow> (Inr (BaseBranch cfg), t1)
        | (False, t1) \<Rightarrow>
            (case CurrentBranch h repoRoot t1 of
               (current, t2) \<Rightarrow>
                 if current = [] then
                   (Inl (Error (''unable to infer base branch (detached HEAD and ''
                                @ [CHR 0x27] @ BaseBranch cfg @ [CHR 0x27] @ '' missing)'')), t2)
                 else (Inr current, t2)))"

definition WorktreeRootDir :: "host \<Rightarrow> Config \<Rightarrow> string \<Rightarrow> call list \<Rightarrow> string \<times> call list" where
  "WorktreeRootDir h cfg repoRoot t =
     (case RepoName h repoRoot t of
        (repoName, t1) \<Rightarrow>
          let expanded = ReplaceAll (WorktreeRootTemplate cfg) ''{repo}'' repoName
          in if IsAbs expanded then absPath h expanded t1
             else absPath h (pathJoin [repoRoot, expanded]) t1)"

text \<open>\<open>runGitWorktreeAdd\<close>: one retry, after \<open>git worktree prune\<close>, when the error matches.\<close>

definition runGitWorktreeAdd ::
  "host \<Rightarrow> string \<Rightarrow> string list \<Rightarrow> call list \<Rightarrow> error option \<times> call list" where
  "runGitWorktreeAdd h repoRoot args t =
     (let allArgs = [''worktree'', ''add''] @ args;
          timeout = gitWorktreeCommandTimeout (environ h)
      in case runCmdQuietTimeout h repoRoot timeout ''git'' allArgs t of
           (None, t1) \<Rightarrow> (None, t1)
         | (Some err, t1) \<Rightarrow>
             if shouldRetryWorktreeAdd (lowerTable h) (Some err) then
               (case runCmdQuiet h repoRoot ''git'' [''worktree'', ''prune''] t1 of
                  (ignored, t2) \<Rightarrow> runCmdQuietTimeout h repoRoot timeout ''git'' allArgs t2)
             else (Some err, t1))"

definition runGitWorktreeRemove ::
  "host \<Rightarrow> string \<Rightarrow> string \<Rightarrow> bool \<Rightarrow> call list \<Rightarrow> error option \<times> call list" where
  "runGitWorktreeRemove h repoRoot worktreePath force t =
     (let args = [''worktree'', ''remove''];
          args = (if force then args @ [''--force''] else args);
          args = args @ [worktreePath];
          timeout = gitWorktreeCommandTimeout (environ h)
      in runCmdQuietTimeout h repoRoot timeout ''git'' args t)"

definition CreateWorktreeWithBranch ::
  "host \<Rightarrow> string \<Rightarrow> string \<Rightarrow> string \<Rightarrow> string \<Rightarrow> call list \<Rightarrow> error option \<times> call list" where
  "CreateWorktreeWithBranch h repoRoot branch worktreePath baseBranch t =
     (case BranchExists h repoRoot branch t of
        (True, t1) \<Rightarrow> (Some (Error (''branch already exists: '' @ branch)), t1)
      | (False, t1) \<Rightarrow>
          (case perform h (Stat worktreePath) t1 of
             (Inr info, t2) \<Rightarrow> (Some (Error (''target path already exists: '' @ worktreePath)), t2)
           | (Inl err, t2) \<Rightarrow>
               if \<not> isNotExist err then (Some err, t2)
               else
                 (case perform h (MkdirAll (Dir worktreePath) 493) t2 of
                    (Inl err, t3) \<Rightarrow> (Some err, t3)
                  | (Inr ok, t3) \<Rightarrow>
                      runGitWorktreeAdd h repoRoot [''-b'', branch, worktreePath, baseBranch] t3)))"

definition CreateWorktreeFromExisting ::
  "host \<Rightarrow> string \<Rightarrow> string \<Rightarrow> string \<Rightarrow> call list \<Rightarrow> error option \<times> call list" where
  "CreateWorktreeFromExisting h repoRoot branch worktreePath t =
     (case perform h (Stat worktreePath) t of
        (Inr info, t1) \<Rightarrow> (Some (Error (''target path already exists: '' @ worktreePath)), t1)
      | (Inl err, t1) \<Rightarrow>
          if \<not> isNotExist err then (Some err, t1)
          else
            (case perform h (MkdirAll (Dir worktreePath) 493) t1 of
               (Inl err, t2) \<Rightarrow> (Some err, t2)
             | (Inr ok, t2) \<Rightarrow>
                 (case BranchExists h repoRoot branch t2 of
                    (True, t3) \<Rightarrow> runGitWorktreeAdd h repoRoot [worktreePath, branch] t3
                  | (False, t3) \<Rightarrow> runGitWorktreeAdd h repoRoot [worktreePath, branch] t3)))"

section \<open>Listing and finding working copies (manager.go)\<close>

definition newWorktree :: "string \<Rightarrow> string \<Rightarrow> Worktree" where
  "newWorktree p b =
     \<lparr>Path = p, Branch = b, Current = False, Dirty = False, TmuxState = [], AgentState = []\<rparr>"

text \<open>The closure \<open>flush\<close> of \<open>parseWorktreeList\<close>, and its loop over the lines.\<close>

definition flush :: "Worktree list \<Rightarrow> string \<Rightarrow> string \<Rightarrow> Worktree list" where
  "flush res curPath curBranch =
     (if curPath \<noteq> [] then res @ [newWorktree curPath curBranch] else res)"

fun parseLines :: "string list \<Rightarrow> Worktree list \<Rightarrow> string \<Rightarrow> string \<Rightarrow> Worktree list" where
  "parseLines [] res curPath curBranch = flush res curPath curBranch"
| "parseLines (l # ls) res curPath curBranch =
     (let line = TrimRight l [CHR 0x0D] in
      if TrimSpace line = [] then parseLines ls (flush res curPath curBranch) [] []
      else if HasPrefix line ''worktree '' then
        parseLines ls res (TrimPrefix line ''worktree '') curBranch
      else if HasPrefix line ''branch refs/heads/'' then
        parseLines ls res curPath (TrimPrefix line ''branch refs/heads/'')
      else if HasPrefix line ''branch '' then
        parseLines ls res curPath (TrimPrefix line ''branch '')
      else parseLines ls res curPath curBranch)"

definition parseWorktreeList ::
  "host \<Rightarrow> string \<Rightarrow> call list \<Rightarrow> (error + Worktree list) \<times> call list" where
  "parseWorktreeList h repoRoot t =
     (case runCmdOutput h repoRoot ''git'' [''worktree'', ''list'', ''--porcelain''] t of
        (Inl err, t1) \<Rightarrow> (Inl err, t1)
      | (Inr out, t1) \<Rightarrow> (Inr (parseLines (splitOn (CHR 0x0A) out) [] [] []), t1))"

definition WorktreeDirty :: "host \<Rightarrow> string \<Rightarrow> call list \<Rightarrow> bool \<times> call list" where
  "WorktreeDirty h path t =
     (case runCmdOutput h path ''git'' [''status'', ''--porcelain'', ''--untracked-files=all''] t of
        (Inl err, t1) \<Rightarrow> (False, t1)
      | (Inr out, t1) \<Rightarrow> (TrimSpace out \<noteq> [], t1))"

definition tmuxHasSession :: "host \<Rightarrow> string \<Rightarrow> call list \<Rightarrow> bool \<times> call list" where
  "tmuxHasSession h session t =
     (case runCmdOutput h [] ''tmux'' [''has-session'', ''-t'', session] t of
        (r, t1) \<Rightarrow> (errorOf r = None, t1))"

definition tmuxWindowExists :: "host \<Rightarrow> string \<Rightarrow> string \<Rightarrow> call list \<Rightarrow> bool \<times> call list" where
  "tmuxWindowExists h session window t =
     (case runCmdOutput h [] ''tmux'' [''has-session'', ''-t'', session @ '':'' @ window] t of
        (r, t1) \<Rightarrow> (errorOf r = None, t1))"

text \<open>The loop of \<open>ListWorktrees\<close> over the items, and the order it sorts them by.\<close>

fun fillItems ::
  "host \<Rightarrow> Config \<Rightarrow> string \<Rightarrow> string \<Rightarrow> bool \<Rightarrow> Worktree list \<Rightarrow> call list
   \<Rightarrow> Worktree list \<times> call list" where
  "fillItems h cfg repoRoot current hasTmux [] t = ([], t)"
| "fillItems h cfg repoRoot current hasTmux (it # its) t =
     (case absPath h (Path it) t of
        (p, t1) \<Rightarrow>
          (case WorktreeDirty h p t1 of
             (d, t2) \<Rightarrow>
               let it1 = it\<lparr>Path := p, Current := (p = current), Dirty := d,
                              TmuxState := ''n/a'', AgentState := ''n/a''\<rparr>
               in if \<not> hasTmux then
                    (case fillItems h cfg repoRoot current hasTmux its t2 of
                       (rest, t') \<Rightarrow> (it1 # rest, t'))
                  else
                    (case RepoName h repoRoot t2 of
                       (repoName, t3) \<Rightarrow>
                         let it2 = it1\<lparr>TmuxState := ''no'', AgentState := ''no''\<rparr>;
                             session = tmuxWorktreeSessionName cfg repoName (Some it2)
                         in (case tmuxHasSession h session t3 of
                               (False, t4) \<Rightarrow>
                                 (case fillItems h cfg repoRoot current hasTmux its t4 of
                                    (rest, t') \<Rightarrow> (it2 # rest, t'))
                             | (True, t4) \<Rightarrow>
                                 let it3 = it2\<lparr>TmuxState := ''yes''\<rparr>;
                                     agentWindow = tmuxAgentWindowName (worktreeBranchOrName it3)
                                 in (case tmuxWindowExists h session agentWindow t4 of
                                       (w, t5) \<Rightarrow>
                                         let it4 = (if w then it3\<lparr>AgentState := ''yes''\<rparr> else it3)
                                         in (case fillItems h cfg repoRoot current hasTmux its t5 of
                                               (rest, t') \<Rightarrow> (it4 # rest, t')))))))"

definition currentFirst :: "Worktree \<Rightarrow> Worktree \<Rightarrow> bool" where
  "currentFirst a b =
     (if Current a then True else if Current b then False else strLess (Path a) (Path b))"

definition ListWorktrees :: "host \<Rightarrow> Config \<Rightarrow> call list \<Rightarrow> (error + Worktree list) \<times> call list" where
  "ListWorktrees h cfg t =
     (case RequireRepo h t of
        (Inl err, t1) \<Rightarrow> (Inl err, t1)
      | (Inr repoRoot, t1) \<Rightarrow>
          (case parseWorktreeList h repoRoot t1 of
             (Inl err, t2) \<Rightarrow> (Inl err, t2)
           | (Inr items, t2) \<Rightarrow>
               (case absPath h repoRoot t2 of
                  (current, t3) \<Rightarrow>
                    (case commandExists h ''tmux'' t3 of
                       (hasTmux, t4) \<Rightarrow>
                         (case fillItems h cfg repoRoot current hasTmux items t4 of
                            (filled, t5) \<Rightarrow> (Inr (sliceStable h currentFirst filled), t5))))))"

text \<open>\<open>FindWorktree\<close>: the first item that the target names.\<close>

definition FindWorktree ::
  "host \<Rightarrow> Config \<Rightarrow> string \<Rightarrow> call list \<Rightarrow> (error + Worktree) \<times> call list" where
  "FindWorktree h cfg target t =
     (case ListWorktrees h cfg t of
        (Inl err, t1) \<Rightarrow> (Inl err, t1)
      | (Inr items, t1) \<Rightarrow>
          (case perform h (Stat target) t1 of
             (st, t2) \<Rightarrow>
               (case (if st = Inr ''dir'' then absPath h target t2 else ([], t2)) of
                  (targetAbs, t3) \<Rightarrow>
                    (case find (\<lambda>it. target = Branch it \<or> target = Path it
                                       \<or> targetAbs = Path it \<or> target = Base (Path it)) items of
                       Some wt \<Rightarrow> (Inr wt, t3)
                     | None \<Rightarrow> (Inl (Error (''worktree not found for target: '' @ target)), t3)))))"

definition BranchCheckedOutAnywhere ::
  "host \<Rightarrow> Config \<Rightarrow> string \<Rightarrow> call list \<Rightarrow> bool \<times> call list" where
  "BranchCheckedOutAnywhere h cfg branch t =
     (case ListWorktrees h cfg t of
        (Inl err, t1) \<Rightarrow> (False, t1)
      | (Inr items, t1) \<Rightarrow> (list_ex (\<lambda>item. Branch item = branch) items, t1))"

section \<open>Removing a working copy (manager.go, Remove)\<close>

record RemoveOptions =
  rmTarget :: string
  rmForce :: bool
  rmDeleteBranch :: bool

text \<open>
  \<open>Remove\<close> returns the path, the warnings and the error. Its body is written in four
  parts, in the order of the source: finding the working copy and refusing a dirty one;
  stopping the tmux session; removing the working copy, with one retry; deleting the
  branch.
\<close>

definition Remove_stopSession ::
  "host \<Rightarrow> Config \<Rightarrow> string \<Rightarrow> Worktree \<Rightarrow> call list \<Rightarrow> (string \<times> string list) \<times> call list" where
  "Remove_stopSession h cfg repoRoot wt t =
     (case commandExists h ''tmux'' t of
        (False, t1) \<Rightarrow> (([], []), t1)
      | (True, t1) \<Rightarrow>
          (case RepoName h repoRoot t1 of
             (repoName, t2) \<Rightarrow>
               let session = tmuxWorktreeSessionName cfg repoName (Some wt)
               in (case tmuxHasSession h session t2 of
                     (False, t3) \<Rightarrow> ((session, []), t3)
                   | (True, t3) \<Rightarrow>
                       (case runCmdQuiet h [] ''tmux'' [''kill-session'', ''-t'', session] t3 of
                          (None, t4) \<Rightarrow> ((session, []), t4)
                        | (Some err, t4) \<Rightarrow>
                            ((session, [''unable to stop tmux session '' @ session
                                        @ '' before removal: '' @ errorText err]), t4)))))"

definition Remove_worktree ::
  "host \<Rightarrow> string \<Rightarrow> Worktree \<Rightarrow> bool \<Rightarrow> string \<Rightarrow> string list \<Rightarrow> call list
   \<Rightarrow> (string list \<times> error option) \<times> call list" where
  "Remove_worktree h repoRoot wt force session warnings t =
     (case runGitWorktreeRemove h repoRoot (Path wt) force t of
        (None, t1) \<Rightarrow> ((warnings, None), t1)
      | (Some err, t1) \<Rightarrow>
          if shouldRetryWorktreeRemove (lowerTable h) (Some err) then
            (case runCmdQuiet h repoRoot ''git'' [''worktree'', ''prune''] t1 of
               (ignored, t2) \<Rightarrow>
                 (case (if session \<noteq> [] then tmuxHasSession h session t2 else (False, t2)) of
                    (alive, t3) \<Rightarrow>
                      (case (if alive
                             then runCmdQuiet h [] ''tmux'' [''kill-session'', ''-t'', session] t3
                             else (None, t3)) of
                         (ignored2, t4) \<Rightarrow>
                           (case runGitWorktreeRemove h repoRoot (Path wt) force t4 of
                              (None, t5) \<Rightarrow>
                                ((warnings @ [''worktree removal required a retry after cleanup''],
                                  None), t5)
                            | (Some retryErr, t5) \<Rightarrow> ((warnings, Some retryErr), t5)))))
          else ((warnings, Some err), t1))"

definition Remove_branch ::
  "host \<Rightarrow> Config \<Rightarrow> RemoveOptions \<Rightarrow> string \<Rightarrow> Worktree \<Rightarrow> string list \<Rightarrow> call list
   \<Rightarrow> (string \<times> string list \<times> error option) \<times> call list" where
  "Remove_branch h cfg opts repoRoot wt warnings t =
     (if rmDeleteBranch opts \<and> Branch wt \<noteq> [] then
        (case BranchCheckedOutAnywhere h cfg (Branch wt) t of
           (True, t1) \<Rightarrow>
             ((Path wt,
               warnings @ [''branch still checked out in another worktree, not deleting: ''
                           @ Branch wt],
               None), t1)
         | (False, t1) \<Rightarrow>
             let branchArgs = [''branch''] @ (if rmForce opts then [''-D''] else [''-d''])
                              @ [Branch wt]
             in (case runCmdQuiet h repoRoot ''git'' branchArgs t1 of
                   (Some err, t2) \<Rightarrow> (([], warnings, Some err), t2)
                 | (None, t2) \<Rightarrow> ((Path wt, warnings, None), t2)))
      else ((Path wt, warnings, None), t))"

definition dirtyError :: "Worktree \<Rightarrow> error" where
  "dirtyError wt =
     Error (''worktree has uncommitted changes: '' @ Path wt @ '' (use --force to override)'')"

definition Remove ::
  "host \<Rightarrow> Config \<Rightarrow> RemoveOptions \<Rightarrow> call list
   \<Rightarrow> (string \<times> string list \<times> error option) \<times> call list" where
  "Remove h cfg opts t =
     (case RequireRepo h t of
        (Inl err, t1) \<Rightarrow> (([], [], Some err), t1)
      | (Inr repoRoot, t1) \<Rightarrow>
          (case FindWorktree h cfg (rmTarget opts) t1 of
             (Inl err, t2) \<Rightarrow> (([], [], Some err), t2)
           | (Inr wt, t2) \<Rightarrow>
               (case (if \<not> rmForce opts then WorktreeDirty h (Path wt) t2 else (False, t2)) of
                  (True, t3) \<Rightarrow> (([], [], Some (dirtyError wt)), t3)
                | (False, t3) \<Rightarrow>
                    (case Remove_stopSession h cfg repoRoot wt t3 of
                       ((session, warnings), t4) \<Rightarrow>
                         (case Remove_worktree h repoRoot wt (rmForce opts) session warnings t4 of
                            ((warnings', Some err), t5) \<Rightarrow> (([], warnings', Some err), t5)
                          | ((warnings', None), t5) \<Rightarrow>
                              Remove_branch h cfg opts repoRoot wt warnings' t5)))))"

section \<open>Capturing a pane (manager.go, tmuxCapturePaneWithCursor)\<close>

text \<open>\<open>strings.Fields\<close>: the pieces of the string between runs of spaces.\<close>

function fieldsFrom :: "string \<Rightarrow> string \<Rightarrow> string list" where
  "fieldsFrom s cur =
     (if s = [] then (if cur = [] then [] else [cur])
      else if spaceAtStart s \<noteq> 0 then
        (if cur = [] then [] else [cur]) @ fieldsFrom (drop (spaceAtStart s) s) []
      else fieldsFrom (tl s) (cur @ [hd s]))"
  by pat_completeness auto
termination
proof (relation "measure (\<lambda>(s, cur). length s)")
  fix s cur :: string assume "s \<noteq> []" "spaceAtStart s \<noteq> 0"
  then show "((drop (spaceAtStart s) s, []), (s, cur)) \<in> measure (\<lambda>(s, cur). length s)"
    by (cases s) auto
qed auto

declare fieldsFrom.simps [simp del]

definition Fields :: "string \<Rightarrow> string list" where
  "Fields s = fieldsFrom s []"

text \<open>The decimal digits of a number that is not negative, and \<open>%d\<close> of \<open>fmt.Sprintf\<close>.\<close>

function decimal :: "int \<Rightarrow> string" where
  "decimal n =
     (if n < 10 then [char_of (48 + n)] else decimal (n div 10) @ [char_of (48 + n mod 10)])"
  by pat_completeness auto
termination
  by (relation "measure nat") auto

declare decimal.simps [simp del]

definition formatInt :: "int \<Rightarrow> string" where
  "formatInt n = (if n < 0 then ''-'' @ decimal (- n) else decimal n)"

text \<open>
  The first part of \<open>tmuxCapturePaneWithCursor\<close>: the defaults, and what is taken from
  the answer to \<open>display-message\<close>: the cursor flag, the column and the row of the cursor,
  and the height of the pane.
\<close>

definition readPaneMeta :: "error + string \<Rightarrow> int \<Rightarrow> string \<times> int \<times> int \<times> int" where
  "readPaneMeta meta lines =
     (let cursorFlag = ''0''; cursorX = 0; cursorY = 0;
          paneHeight = (if lines \<le> 0 then 120 else lines)
      in case meta of
           Inl err \<Rightarrow> (cursorFlag, cursorX, cursorY, paneHeight)
         | Inr out \<Rightarrow>
             let parts = Fields (TrimSpace out) in
             if length parts = 4 then
               (case (Atoi (parts ! 1), Atoi (parts ! 2), Atoi (parts ! 3)) of
                  (Some px, Some py, Some ph) \<Rightarrow>
                    if ph > 0 then (parts ! 0, px, py, ph)
                    else (cursorFlag, cursorX, cursorY, paneHeight)
                | other \<Rightarrow> (cursorFlag, cursorX, cursorY, paneHeight))
             else (cursorFlag, cursorX, cursorY, paneHeight))"

text \<open>
  The last part of \<open>tmuxCapturePaneWithCursor\<close>, from the output of \<open>capture-pane\<close> to
  the text returned. \<open>overlayCursorInANSILine\<close>, which draws the cursor into one row, is
  an argument of the model: the number of lines asked for does not depend on it.
\<close>

definition captureText ::
  "(string \<Rightarrow> int \<Rightarrow> string) \<Rightarrow> string \<Rightarrow> int \<Rightarrow> int \<Rightarrow> int \<Rightarrow> string \<Rightarrow> string" where
  "captureText overlayCursorInANSILine cursorFlag cursorX cursorY paneHeight out =
     (let rows = splitOn (CHR 0x0A) out;
          rows = (if rows \<noteq> [] \<and> last rows = [] then butlast rows else rows);
          rows = (if rows = [] then [[]] else rows);
          text = JoinStr rows [CHR 0x0A]
      in if cursorFlag \<noteq> ''1'' then text
         else
           let screenStart = int (length rows) - paneHeight;
               screenStart = (if screenStart < 0 then 0 else screenStart);
               targetRow = screenStart + cursorY
           in if targetRow < 0 \<or> targetRow \<ge> int (length rows) then text
              else
                let cursorX = (if cursorX < 0 then 0 else cursorX);
                    rows = rows[nat targetRow :=
                             overlayCursorInANSILine (rows ! nat targetRow) cursorX]
                in JoinStr rows [CHR 0x0A])"

definition tmuxCapturePaneWithCursor ::
  "host \<Rightarrow> (string \<Rightarrow> int \<Rightarrow> string) \<Rightarrow> string \<Rightarrow> int \<Rightarrow> call list
   \<Rightarrow> (error + string) \<times> call list" where
  "tmuxCapturePaneWithCursor h overlayCursorInANSILine paneTarget lines t =
     (case runCmdOutput h [] ''tmux''
             [''display-message'', ''-p'', ''-t'', paneTarget,
              ''#{cursor_flag} #{cursor_x} #{cursor_y} #{pane_height}''] t of
        (meta, t1) \<Rightarrow>
          (case readPaneMeta meta lines of
             (cursorFlag, cursorX, cursorY, paneHeight) \<Rightarrow>
               let lines = (if lines \<le> 0 then paneHeight else lines);
                   lines = (if lines < paneHeight then paneHeight else lines)
               in (case runCmdOutput h [] ''tmux''
                          [''capture-pane'', ''-p'', ''-N'', ''-e'', ''-t'', paneTarget, ''-S'',
                           ''-'' @ formatInt lines] t1 of
                     (Inl err, t2) \<Rightarrow> (Inl err, t2)
                   | (Inr out, t2) \<Rightarrow>
                       (Inr (captureText overlayCursorInANSILine cursorFlag cursorX cursorY
                               paneHeight out), t2))))"

text \<open>The two calls of tmux that the capture makes.\<close>

definition displayCall :: "string \<Rightarrow> call" where
  "displayCall paneTarget =
     Exec [] 0 ''tmux''
       [''display-message'', ''-p'', ''-t'', paneTarget,
        ''#{cursor_flag} #{cursor_x} #{cursor_y} #{pane_height}'']"

definition captureCall :: "string \<Rightarrow> int \<Rightarrow> call" where
  "captureCall paneTarget lines =
     Exec [] 0 ''tmux''
       [''capture-pane'', ''-p'', ''-N'', ''-e'', ''-t'', paneTarget, ''-S'', ''-'' @ formatInt lines]"

text \<open>An overlay that leaves the row as it is, for evaluating the calls.\<close>

definition keepRow :: "string \<Rightarrow> int \<Rightarrow> string" where
  "keepRow line col = line"

text \<open>
  The words of the specification: the height of the pane that the multiplexer reported,
  when its answer has the four fields and the three numbers are integers, the height
  positive.
\<close>

definition reportedPaneHeight :: "error + string \<Rightarrow> int option" where
  "reportedPaneHeight meta =
     (case meta of
        Inl err \<Rightarrow> None
      | Inr out \<Rightarrow>
          let parts = Fields (TrimSpace (TrimRight out [CHR 0x0A])) in
          if length parts = 4 \<and> Atoi (parts ! 1) \<noteq> None \<and> Atoi (parts ! 2) \<noteq> None
             \<and> Atoi (parts ! 3) \<noteq> None \<and> 0 < the (Atoi (parts ! 3))
          then Atoi (parts ! 3) else None)"

section \<open>Ready or busy (ui.go, stripANSI and agentReadyForInstruction)\<close>

















section \<open>Copying untracked and ignored files (manager.go)\<close>

text \<open>The loop of \<open>collectCopyCandidates\<close> over the records of \<open>git status -z\<close>.\<close>

fun candidatePaths :: "string list \<Rightarrow> string list" where
  "candidatePaths [] = []"
| "candidatePaths (line # recs) =
     (if length line < 3 then candidatePaths recs
      else if HasPrefix line ''? '' \<or> HasPrefix line ''! '' then
        (let p = TrimSpace (drop 2 line);
             p = TrimSuffix p ''/''
         in if p = [] then candidatePaths recs
            else if p = ''.git'' \<or> HasPrefix p ''.git/'' then candidatePaths recs
            else p # candidatePaths recs)
      else candidatePaths recs)"

text \<open>The set of the paths becomes a sorted list without repetitions.\<close>

definition collectCopyCandidates ::
  "host \<Rightarrow> string \<Rightarrow> call list \<Rightarrow> (error + string list) \<times> call list" where
  "collectCopyCandidates h sourceRoot t =
     (case runCmdBytes h sourceRoot ''git''
             [''status'', ''--porcelain=v2'', ''-z'', ''--untracked-files=all'',
              ''--ignored=matching''] t of
        (Inl err, t1) \<Rightarrow> (Inl err, t1)
      | (Inr out, t1) \<Rightarrow>
          (Inr (sortStrings (remdups (candidatePaths (splitOn (CHR 0x00) out)))), t1))"

text \<open>\<open>fmt.Errorf("... %w", err)\<close>: the message grows, the wrapped error stays what it is.\<close>

fun wrapError :: "string \<Rightarrow> error \<Rightarrow> error" where
  "wrapError msg (Error m) = Error (msg @ m)"
| "wrapError msg (NotExistError m) = NotExistError (msg @ m)"

fun copyCandidates ::
  "host \<Rightarrow> string \<Rightarrow> string \<Rightarrow> string list \<Rightarrow> call list \<Rightarrow> error option \<times> call list" where
  "copyCandidates h sourceRoot targetRoot [] t = (None, t)"
| "copyCandidates h sourceRoot targetRoot (rel # rels) t =
     (let src = pathJoin [sourceRoot, rel];
          dst = pathJoin [targetRoot, rel]
      in case perform h (Lstat src) t of
           (Inl err, t1) \<Rightarrow>
             if isNotExist err then copyCandidates h sourceRoot targetRoot rels t1
             else (Some err, t1)
         | (Inr info, t1) \<Rightarrow>
             (case perform h (CopyPath src dst) t1 of
                (Inl err, t2) \<Rightarrow> (Some (wrapError (''copy '' @ rel @ '': '') err), t2)
              | (Inr ok, t2) \<Rightarrow> copyCandidates h sourceRoot targetRoot rels t2))"

definition CopyUntrackedAndIgnored ::
  "host \<Rightarrow> string \<Rightarrow> string \<Rightarrow> call list \<Rightarrow> error option \<times> call list" where
  "CopyUntrackedAndIgnored h sourceRoot targetRoot t =
     (case collectCopyCandidates h sourceRoot t of
        (Inl err, t1) \<Rightarrow> (Some err, t1)
      | (Inr candidates, t1) \<Rightarrow> copyCandidates h sourceRoot targetRoot candidates t1)"

section \<open>Creating a working copy (manager.go, NewWorktree)\<close>

record NewOptions =
  optBranch :: string
  optType :: string
  optName :: string
  optBaseBranch :: string
  optFromBranch :: string
  optLaunch :: bool

definition LaunchOrFocus ::
  "host \<Rightarrow> string \<Rightarrow> string \<Rightarrow> string \<Rightarrow> bool \<Rightarrow> call list \<Rightarrow> error option \<times> call list" where
  "LaunchOrFocus h repoRoot branch worktreePath attachOutside t =
     (case perform h (LaunchOrFocusCall repoRoot branch worktreePath attachOutside) t of
        (r, t1) \<Rightarrow> (errorOf r, t1))"

text \<open>\<open>NewWorktree\<close> returns the branch and the path of the working copy, or an error.\<close>

definition NewWorktree ::
  "host \<Rightarrow> Config \<Rightarrow> NewOptions \<Rightarrow> call list \<Rightarrow> (error + string \<times> string) \<times> call list" where
  "NewWorktree h cfg opts t =
     (case RequireRepo h t of
        (Inl err, t1) \<Rightarrow> (Inl err, t1)
      | (Inr repoRoot, t1) \<Rightarrow>
          let branch = TrimSpace (optBranch opts);
              isExisting = (optFromBranch opts \<noteq> []);
              branch = (if isExisting then optFromBranch opts else branch)
          in case (if branch = [] then MakeBranchName (lowerTable h) (optType opts) (optName opts)
                   else Inr branch) of
               Inl err \<Rightarrow> (Inl err, t1)
             | Inr branch \<Rightarrow>
                 (case WorktreeRootDir h cfg repoRoot t1 of
                    (worktreeRoot, t2) \<Rightarrow>
                      (case absPath h (pathJoin [worktreeRoot, branch]) t2 of
                         (worktreePath, t3) \<Rightarrow>
                           (case (if isExisting
                                  then CreateWorktreeFromExisting h repoRoot branch worktreePath t3
                                  else
                                    (case ResolveBaseBranch h cfg repoRoot (optBaseBranch opts) t3 of
                                       (Inl err, t4) \<Rightarrow> (Some err, t4)
                                     | (Inr base, t4) \<Rightarrow>
                                         CreateWorktreeWithBranch h repoRoot branch worktreePath
                                           base t4)) of
                              (Some err, t5) \<Rightarrow> (Inl err, t5)
                            | (None, t5) \<Rightarrow>
                                (case CopyUntrackedAndIgnored h repoRoot worktreePath t5 of
                                   (Some err, t6) \<Rightarrow> (Inl err, t6)
                                 | (None, t6) \<Rightarrow>
                                     if optLaunch opts then
                                       (case LaunchOrFocus h repoRoot branch worktreePath True t6 of
                                          (Some err, t7) \<Rightarrow> (Inl err, t7)
                                        | (None, t7) \<Rightarrow> (Inr (branch, worktreePath), t7))
                                     else (Inr (branch, worktreePath), t6))))))"

section \<open>Example hosts\<close>

text \<open>
  A repository at \<open>/r/repo\<close> on branch \<open>main\<close>, with a second working copy for the branch
  \<open>feat/x\<close>. No branch asked for exists, no path asked for exists, tmux is not
  installed, and every other call succeeds with no output.
\<close>

fun quietGit :: "string list \<Rightarrow> error + string" where
  "quietGit args =
     (if args = [''rev-parse'', ''--show-toplevel''] then Inr (''/r/repo'' @ [CHR 0x0A])
      else if args = [''rev-parse'', ''--path-format=absolute'', ''--git-common-dir'']
        then Inr (''/r/repo/.git'' @ [CHR 0x0A])
      else if args = [''worktree'', ''list'', ''--porcelain'']
        then Inr (''worktree /r/repo'' @ [CHR 0x0A] @ ''HEAD 1111'' @ [CHR 0x0A]
                  @ ''branch refs/heads/main'' @ [CHR 0x0A, CHR 0x0A]
                  @ ''worktree /r/repo.worktrees/feat/x'' @ [CHR 0x0A] @ ''HEAD 2222'' @ [CHR 0x0A]
                  @ ''branch refs/heads/feat/x'' @ [CHR 0x0A, CHR 0x0A])
      else if take 1 args = [''show-ref''] then Inl (Error ''git show-ref failed: exit status 1'')
      else Inr [])"

fun quietReply :: "call \<Rightarrow> error + string" where
  "quietReply (Exec dir timeout name args) =
     (if name = ''git'' then quietGit args else Inr [])"
| "quietReply (Stat p) = Inl (NotExistError (''stat '' @ p @ '': no such file or directory''))"
| "quietReply (Lstat p) = Inr []"
| "quietReply (MkdirAll p mode) = Inr []"
| "quietReply (CopyPath src dst) = Inr []"
| "quietReply Getwd = Inr ''/r/repo''"
| "quietReply (LookPath name) = Inl (Error (''exec: '' @ name @ '': executable file not found in $PATH''))"
| "quietReply (LaunchOrFocusCall repoRoot branch worktreePath attachOutside) = Inr []"

definition quietHost :: host where
  "quietHost =
     \<lparr>reply = (\<lambda>t c. quietReply c), environ = Map.empty, lowerTable = plainTable,
      sliceStable = insertionSort\<rparr>"

text \<open>A host that gives one call another answer, and one that answers the call number \<open>k\<close> otherwise.\<close>

definition answering :: "call \<Rightarrow> error + string \<Rightarrow> host \<Rightarrow> host" where
  "answering c r h = h\<lparr>reply := (\<lambda>t c'. if c' = c then r else reply h t c')\<rparr>"

definition answeringAt :: "nat \<Rightarrow> error + string \<Rightarrow> host \<Rightarrow> host" where
  "answeringAt k r h = h\<lparr>reply := (\<lambda>t c. if length t = k then r else reply h t c)\<rparr>"

section \<open>Names for the calls the claims speak of\<close>

definition showRefCall :: "string \<Rightarrow> string \<Rightarrow> call" where
  "showRefCall repoRoot branch =
     Exec repoRoot 0 ''git'' [''show-ref'', ''--verify'', ''--quiet'', ''refs/heads/'' @ branch]"

definition worktreeAddCall :: "host \<Rightarrow> string \<Rightarrow> string list \<Rightarrow> call" where
  "worktreeAddCall h repoRoot args =
     Exec repoRoot (gitWorktreeCommandTimeout (environ h)) ''git'' ([''worktree'', ''add''] @ args)"

definition worktreeRemoveCall :: "host \<Rightarrow> string \<Rightarrow> string \<Rightarrow> bool \<Rightarrow> call" where
  "worktreeRemoveCall h repoRoot worktreePath force =
     Exec repoRoot (gitWorktreeCommandTimeout (environ h)) ''git''
       ([''worktree'', ''remove''] @ (if force then [''--force''] else []) @ [worktreePath])"

definition pruneCall :: "string \<Rightarrow> call" where
  "pruneCall repoRoot = Exec repoRoot 0 ''git'' [''worktree'', ''prune'']"

definition statusCall :: "string \<Rightarrow> call" where
  "statusCall path = Exec path 0 ''git'' [''status'', ''--porcelain'', ''--untracked-files=all'']"

fun isWorktreeAdd :: "call \<Rightarrow> bool" where
  "isWorktreeAdd (Exec dir timeout name args) = (name = ''git'' \<and> take 2 args = [''worktree'', ''add''])"
| "isWorktreeAdd c = False"

fun isWorktreeRemove :: "call \<Rightarrow> bool" where
  "isWorktreeRemove (Exec dir timeout name args) =
     (name = ''git'' \<and> take 2 args = [''worktree'', ''remove''])"
| "isWorktreeRemove c = False"

text \<open>
  The host after \<open>git worktree add\<close>: as \<open>quietHost\<close>, but the path
  \<open>/r/repo.worktrees/shared\<close> exists once a call of \<open>git worktree add\<close> was made.
\<close>

definition afterAddHost :: host where
  "afterAddHost =
     quietHost\<lparr>reply := (\<lambda>t c. if c = Stat ''/r/repo.worktrees/shared'' \<and> list_ex isWorktreeAdd t
                              then Inr ''dir'' else quietReply c)\<rparr>"

text \<open>
  A host where the branch \<open>feature/existing\<close> has a working copy at another path, as in
  the test of the repository: \<open>git worktree add\<close> for that branch fails.
\<close>

definition checkedOutHost :: host where
  "checkedOutHost =
     quietHost\<lparr>reply := (\<lambda>t c. if isWorktreeAdd c
                              then Inl (Error (''git worktree add failed: exit status 128: ''
                                @ ''fatal: feature/existing is already checked out at ''
                                @ ''/r/existing-worktree''))
                              else quietReply c)\<rparr>"

definition fromBranch :: "string \<Rightarrow> NewOptions" where
  "fromBranch b =
     \<lparr>optBranch = [], optType = [], optName = [], optBaseBranch = [], optFromBranch = b,
      optLaunch = False\<rparr>"






text \<open>The substrings of the retry heuristic, as the code has them.\<close>

definition addRetryMarks :: "string list" where
  "addRetryMarks =
     [''timed out'', ''already checked out'', ''already exists'', ''already registered'',
      ''unable to create'', ''cannot lock'']"

definition removeRetryMarks :: "string list" where
  "removeRetryMarks = [''timed out'', ''is locked'', ''cannot remove'', ''cannot lock'']"

definition mentions :: "(nat \<Rightarrow> nat) \<Rightarrow> string list \<Rightarrow> error \<Rightarrow> bool" where
  "mentions tbl marks err = list_ex (Contains (ToLower tbl (errorText err))) marks"

section \<open>Properties of the slugifier\<close>

lemma Contains_sublist: "Contains s sub = sublist sub s"
  by (induction s) (auto simp: sublist_Cons_right)

lemma sublist_pair_Cons:
  "sublist [k, k] (a # xs) = ((a = k \<and> prefix [k] xs) \<or> sublist [k, k] xs)"
  by (auto simp: sublist_Cons_right)

lemma replaceRuns_set:
  "set (replaceRuns P rep b s) \<subseteq> set rep \<union> {c \<in> set s. \<not> P c}"
  by (induction s arbitrary: b) auto

lemma collapse_no_start:
  "\<not> prefix [k] (replaceRuns (\<lambda>c. c = k) [k] True s)"
  by (induction s) auto

lemma collapse_no_double:
  "\<not> sublist [k, k] (replaceRuns (\<lambda>c. c = k) [k] b s)"
proof (induction s arbitrary: b)
  case Nil
  then show ?case by simp
next
  case (Cons c cs)
  then show ?case
    using collapse_no_start [of k cs]
    by (auto simp: sublist_pair_Cons)
qed

lemma collapse_start_other:
  "j \<noteq> k \<Longrightarrow> prefix [j] (replaceRuns (\<lambda>c. c = k) [k] False s) \<Longrightarrow> prefix [j] s"
  by (cases s) (auto split: if_splits)

lemma collapse_keeps_other:
  "j \<noteq> k \<Longrightarrow> \<not> sublist [j, j] s \<Longrightarrow> \<not> sublist [j, j] (replaceRuns (\<lambda>c. c = k) [k] b s)"
proof (induction s arbitrary: b)
  case Nil
  then show ?case by simp
next
  case (Cons c cs)
  then show ?case
    using collapse_start_other [of j k cs]
    by (auto simp: sublist_pair_Cons)
qed

lemma collapse_id:
  "\<not> sublist [k, k] s \<Longrightarrow> (b \<longrightarrow> \<not> prefix [k] s) \<Longrightarrow> replaceRuns (\<lambda>c. c = k) [k] b s = s"
  by (induction s arbitrary: b) (auto simp: sublist_pair_Cons)

lemma replaceRuns_id:
  "list_all (\<lambda>c. \<not> P c) s \<Longrightarrow> replaceRuns P rep b s = s"
  by (induction s arbitrary: b) auto

lemma Trim_sublist: "sublist (Trim s cs) s"
proof -
  let ?P = "\<lambda>c. c \<in> set cs"
  let ?t = "dropWhile ?P s"
  have "suffix ?t s" by (rule suffix_dropWhile)
  moreover have "prefix (rev (dropWhile ?P (rev ?t))) ?t"
    by (metis suffix_dropWhile suffix_to_prefix rev_rev_ident)
  ultimately show ?thesis
    unfolding Trim_def
    by (meson prefix_imp_sublist suffix_imp_sublist sublist_order.order.trans)
qed

lemma Trim_ends:
  "Trim s cs = [] \<or> (hd (Trim s cs) \<notin> set cs \<and> last (Trim s cs) \<notin> set cs)"
proof (cases "Trim s cs = []")
  case True then show ?thesis by simp
next
  case False
  let ?P = "\<lambda>c. c \<in> set cs"
  let ?t = "dropWhile ?P s"
  let ?u = "dropWhile ?P (rev ?t)"
  have u: "?u \<noteq> []" using False by (simp add: Trim_def)
  have l: "last (Trim s cs) = hd ?u" using u by (simp add: Trim_def last_rev)
  have "\<not> ?P (hd ?u)" using u by (rule hd_dropWhile)
  then have 1: "last (Trim s cs) \<notin> set cs" using l by simp
  have "prefix (rev ?u) ?t" by (metis suffix_dropWhile suffix_to_prefix rev_rev_ident)
  then obtain zs where "?t = rev ?u @ zs" by (auto simp: prefix_def)
  then have "hd ?t = hd (rev ?u)" and "?t \<noteq> []" using u by (metis hd_append2 rev_is_Nil_conv, metis append_is_Nil_conv rev_is_Nil_conv)
  moreover have "\<not> ?P (hd ?t)" using \<open>?t \<noteq> []\<close> by (rule hd_dropWhile)
  ultimately have 2: "hd (Trim s cs) \<notin> set cs" by (simp add: Trim_def)
  show ?thesis using 1 2 by simp
qed

lemma Trim_id:
  "s \<noteq> [] \<Longrightarrow> hd s \<notin> set cs \<Longrightarrow> last s \<notin> set cs \<Longrightarrow> Trim s cs = s"
proof -
  assume a: "s \<noteq> []" "hd s \<notin> set cs" "last s \<notin> set cs"
  have 1: "dropWhile (\<lambda>c. c \<in> set cs) s = s" using a by (cases s) auto
  have "hd (rev s) \<notin> set cs" using a by (simp add: hd_rev)
  then have 2: "dropWhile (\<lambda>c. c \<in> set cs) (rev s) = rev s" using a by (cases "rev s") auto
  show ?thesis by (simp add: Trim_def 1 2)
qed

lemma ReplaceAll_absent: "k \<notin> set s \<Longrightarrow> ReplaceAll s [k] new = s"
proof (induction s)
  case Nil
  then show ?case by (simp add: ReplaceAll.simps)
next
  case (Cons c cs)
  then show ?case by (subst ReplaceAll.simps) simp
qed

lemma ToLower_id:
  "list_all (\<lambda>c. isASCII c \<and> \<not> isUpperAZ c) s \<Longrightarrow> ToLower tbl s = s"
  by (auto simp: ToLower_def list_all_iff lowerASCII_def map_idI)


lemma slugChar_facts:
  "slugChar c \<Longrightarrow> isASCII c \<and> \<not> isUpperAZ c \<and> c \<noteq> CHR ''_'' \<and> c \<noteq> CHR '' ''"
  by (auto simp: slugChar_def isASCII_def isUpperAZ_def isLowerAZ_def isDigit_def)

lemma slugChar_dash_slash: "slugChar (CHR ''-'')" "slugChar (CHR ''/'')"
  by (simp_all add: slugChar_def)

lemma slugSteps_shape:
  fixes tbl x
  defines "y \<equiv> slugSteps tbl x"
  shows "list_all slugChar y" and "\<not> sublist ''--'' y" and "\<not> sublist ''//'' y"
    and "y = [] \<or> (hd y \<notin> set ''-/'' \<and> last y \<notin> set ''-/'')"
proof -
  define s3 where "s3 = ReplaceAll (ReplaceAll (ToLower tbl x) ''_'' ''-'') '' '' ''-''"
  define s4 where "s4 = slugBadRe_ReplaceAllString s3 ''-''"
  define s5 where "s5 = slashRe_ReplaceAllString s4 ''/''"
  define s6 where "s6 = dashRe_ReplaceAllString s5 ''-''"
  have y: "y = Trim s6 ''-/''"
    by (simp add: y_def slugSteps_def s3_def s4_def s5_def s6_def)
  have 4: "set s4 \<subseteq> {c. slugChar c}"
    using replaceRuns_set [of "\<lambda>c. \<not> slugChar c" "''-''" False s3] slugChar_dash_slash
    by (auto simp: s4_def slugBadRe_ReplaceAllString_def)
  have 5: "set s5 \<subseteq> {c. slugChar c}"
    using replaceRuns_set [of "\<lambda>c. c = CHR ''/''" "''/''" False s4] 4 slugChar_dash_slash
    by (auto simp: s5_def slashRe_ReplaceAllString_def)
  have d5: "\<not> sublist ''//'' s5"
    unfolding s5_def slashRe_ReplaceAllString_def by (rule collapse_no_double)
  have 6: "set s6 \<subseteq> {c. slugChar c}"
    using replaceRuns_set [of "\<lambda>c. c = CHR ''-''" "''-''" False s5] 5 slugChar_dash_slash
    by (auto simp: s6_def dashRe_ReplaceAllString_def)
  have d6: "\<not> sublist ''--'' s6"
    unfolding s6_def dashRe_ReplaceAllString_def by (rule collapse_no_double)
  have e6: "\<not> sublist ''//'' s6"
    unfolding s6_def dashRe_ReplaceAllString_def
    by (rule collapse_keeps_other) (use d5 in simp_all)
  have sub: "sublist y s6" unfolding y by (rule Trim_sublist)
  show "list_all slugChar y"
    using set_mono_sublist [OF sub] 6 by (auto simp: list_all_iff)
  show "\<not> sublist ''--'' y" using d6 sub sublist_order.order.trans by blast
  show "\<not> sublist ''//'' y" using e6 sub sublist_order.order.trans by blast
  show "y = [] \<or> (hd y \<notin> set ''-/'' \<and> last y \<notin> set ''-/'')"
    unfolding y by (rule Trim_ends)
qed

lemma slugSteps_fixed:
  assumes "list_all slugChar y" and "\<not> sublist ''--'' y" and "\<not> sublist ''//'' y"
    and "y \<noteq> []" and "hd y \<notin> set ''-/''" and "last y \<notin> set ''-/''"
  shows "slugSteps tbl y = y"
proof -
  have 1: "ToLower tbl y = y"
    by (rule ToLower_id) (use assms(1) slugChar_facts in \<open>auto simp: list_all_iff\<close>)
  have 2: "ReplaceAll y ''_'' ''-'' = y"
    by (rule ReplaceAll_absent) (use assms(1) slugChar_facts in \<open>auto simp: list_all_iff\<close>)
  have 3: "ReplaceAll y '' '' ''-'' = y"
    by (rule ReplaceAll_absent) (use assms(1) slugChar_facts in \<open>auto simp: list_all_iff\<close>)
  have 4: "slugBadRe_ReplaceAllString y ''-'' = y"
    unfolding slugBadRe_ReplaceAllString_def
    by (rule replaceRuns_id) (use assms(1) in \<open>simp add: list_all_iff\<close>)
  have 5: "slashRe_ReplaceAllString y ''/'' = y"
    unfolding slashRe_ReplaceAllString_def
    by (rule collapse_id) (use assms(3) in simp_all)
  have 6: "dashRe_ReplaceAllString y ''-'' = y"
    unfolding dashRe_ReplaceAllString_def
    by (rule collapse_id) (use assms(2) in simp_all)
  have 7: "Trim y ''-/'' = y"
    by (rule Trim_id) (use assms in simp_all)
  show ?thesis by (simp add: slugSteps_def 1 2 3 4 5 6 7)
qed

text \<open>
  Claim C6. \<open>Slugify\<close> fails exactly when the rewritten string is empty. When it
  returns a slug, slugifying the slug returns it again, and the slug is not empty, has
  only characters of \<open>[a-z0-9/-]\<close>, contains neither \<open>--\<close> nor \<open>//\<close>, and neither
  starts nor ends with \<open>-\<close> or \<open>/\<close>. This holds for every case table of the library.
\<close>

theorem Slugify_idempotent_closed:
  "(isl (Slugify tbl x) \<longleftrightarrow> slugSteps tbl x = []) \<and>
   (\<forall>y. Slugify tbl x = Inr y \<longrightarrow>
      Slugify tbl y = Inr y \<and> list_all slugChar y \<and> y \<noteq> []
      \<and> \<not> Contains y ''--'' \<and> \<not> Contains y ''//''
      \<and> \<not> HasPrefix y ''-'' \<and> \<not> HasPrefix y ''/''
      \<and> \<not> HasSuffix y ''-'' \<and> \<not> HasSuffix y ''/'')"
proof (intro conjI allI impI)
  show "isl (Slugify tbl x) \<longleftrightarrow> slugSteps tbl x = []"
    by (simp add: Slugify_def Let_def)
next
  fix y assume "Slugify tbl x = Inr y"
  then have y: "y = slugSteps tbl x" and ne: "y \<noteq> []"
    by (auto simp: Slugify_def Let_def split: if_splits)
  note shape = slugSteps_shape [of tbl x, folded y]
  from shape(4) ne have ends: "hd y \<notin> set ''-/''" "last y \<notin> set ''-/''" by auto
  have "slugSteps tbl y = y"
    by (rule slugSteps_fixed) (use shape ne ends in simp_all)
  then show "Slugify tbl y = Inr y" using ne by (simp add: Slugify_def)
  show "list_all slugChar y" by (rule shape(1))
  show "y \<noteq> []" by (rule ne)
  show "\<not> Contains y ''--''" using shape(2) by (simp add: Contains_sublist)
  show "\<not> Contains y ''//''" using shape(3) by (simp add: Contains_sublist)
  show "\<not> HasPrefix y ''-''" using ends(1) ne by (cases y) (auto simp: HasPrefix_def)
  show "\<not> HasPrefix y ''/''" using ends(1) ne by (cases y) (auto simp: HasPrefix_def)
  show "\<not> HasSuffix y ''-''" using ends(2) ne by (auto simp: HasSuffix_def suffix_def)
  show "\<not> HasSuffix y ''/''" using ends(2) ne by (auto simp: HasSuffix_def suffix_def)
qed

theorem Slugify_idempotent_closed_witness:
  "Slugify plainTable ''Checkout Redesign_v2'' = Inr ''checkout-redesign-v2''
   \<and> Slugify plainTable ''checkout-redesign-v2'' = Inr ''checkout-redesign-v2''
   \<and> list_all slugChar ''checkout-redesign-v2''
   \<and> isl (Slugify plainTable ''_ /-'')"
proof -
  have a: "Slugify plainTable ''Checkout Redesign_v2'' = Inr ''checkout-redesign-v2''"
    by code_simp
  have b: "slugSteps plainTable ''_ /-'' = []" by code_simp
  show ?thesis
    using Slugify_idempotent_closed [of plainTable "''Checkout Redesign_v2''"]
      Slugify_idempotent_closed [of plainTable "''_ /-''"] a b
    by simp
qed

section \<open>Session names\<close>

lemma safeName_nonempty: "safeName v \<noteq> []"
  by (simp add: safeName_def Let_def)

text \<open>
  The claim C3 as written fails: the branches \<open>feat/x\<close> and \<open>feat-x\<close> of one repository
  differ, and their working copies get the same session name.
\<close>

theorem session_name_counterexample:
  "Branch \<lparr>Path = ''/w/feat/x'', Branch = ''feat/x'', Current = False, Dirty = False,
            TmuxState = ''no'', AgentState = ''no''\<rparr>
   \<noteq> Branch \<lparr>Path = ''/w/feat-x'', Branch = ''feat-x'', Current = False, Dirty = False,
            TmuxState = ''no'', AgentState = ''no''\<rparr>
   \<and> tmuxWorktreeSessionName DefaultConfig ''repo''
        (Some \<lparr>Path = ''/w/feat/x'', Branch = ''feat/x'', Current = False, Dirty = False,
            TmuxState = ''no'', AgentState = ''no''\<rparr>)
     = tmuxWorktreeSessionName DefaultConfig ''repo''
        (Some \<lparr>Path = ''/w/feat-x'', Branch = ''feat-x'', Current = False, Dirty = False,
            TmuxState = ''no'', AgentState = ''no''\<rparr>)"
  by code_simp

text \<open>
  Claim C3, amended. The session name of a working copy is the session name of the
  repository, \<open>-\<close> and the safe form of the token (the trimmed branch, else the last
  element of the path), cut to its first 100 characters; it is at most 100 characters
  long; of the configuration it reads the session prefix only; and two working copies
  whose safe tokens differ get different names when neither name is cut.
\<close>

theorem session_name_shape:
  "tmuxWorktreeSessionNameFrom cfg repo branch path
     = take 100 (tmuxSessionName cfg repo @ ''-'' @ safeName (sessionToken branch path))
   \<and> length (tmuxWorktreeSessionNameFrom cfg repo branch path) \<le> 100
   \<and> (SessionPrefix cfg' = SessionPrefix cfg \<longrightarrow>
        tmuxWorktreeSessionNameFrom cfg' repo branch path
          = tmuxWorktreeSessionNameFrom cfg repo branch path)
   \<and> (safeName (sessionToken branch path) \<noteq> safeName (sessionToken branch' path')
        \<and> length (tmuxSessionName cfg repo @ ''-'' @ safeName (sessionToken branch path)) \<le> 100
        \<and> length (tmuxSessionName cfg repo @ ''-'' @ safeName (sessionToken branch' path')) \<le> 100
      \<longrightarrow> tmuxWorktreeSessionNameFrom cfg repo branch path
            \<noteq> tmuxWorktreeSessionNameFrom cfg repo branch' path')"
proof (intro conjI impI)
  have shape: "tmuxWorktreeSessionNameFrom c repo b p
        = take 100 (tmuxSessionName c repo @ ''-'' @ safeName (sessionToken b p))" for c b p
    using safeName_nonempty [of "sessionToken b p"]
    by (simp add: tmuxWorktreeSessionNameFrom_def sessionToken_def Let_def)
  show "tmuxWorktreeSessionNameFrom cfg repo branch path
     = take 100 (tmuxSessionName cfg repo @ ''-'' @ safeName (sessionToken branch path))"
    by (rule shape)
  show "length (tmuxWorktreeSessionNameFrom cfg repo branch path) \<le> 100"
    unfolding shape by simp
  show "tmuxWorktreeSessionNameFrom cfg' repo branch path
          = tmuxWorktreeSessionNameFrom cfg repo branch path"
    if "SessionPrefix cfg' = SessionPrefix cfg"
    unfolding shape using that by (simp add: tmuxSessionName_def)
  show "tmuxWorktreeSessionNameFrom cfg repo branch path
            \<noteq> tmuxWorktreeSessionNameFrom cfg repo branch' path'"
    if "safeName (sessionToken branch path) \<noteq> safeName (sessionToken branch' path')
        \<and> length (tmuxSessionName cfg repo @ ''-'' @ safeName (sessionToken branch path)) \<le> 100
        \<and> length (tmuxSessionName cfg repo @ ''-'' @ safeName (sessionToken branch' path')) \<le> 100"
  proof -
    have 1: "take 100 (tmuxSessionName cfg repo @ ''-'' @ safeName (sessionToken branch path))
        = tmuxSessionName cfg repo @ ''-'' @ safeName (sessionToken branch path)"
      using that by (intro take_all) blast
    have 2: "take 100 (tmuxSessionName cfg repo @ ''-'' @ safeName (sessionToken branch' path'))
        = tmuxSessionName cfg repo @ ''-'' @ safeName (sessionToken branch' path')"
      using that by (intro take_all) blast
    show ?thesis unfolding shape 1 2 using that by simp
  qed
qed

theorem session_name_shape_witness:
  "tmuxWorktreeSessionNameFrom DefaultConfig ''dotnet'' ''feat/my feature'' ''/w/feat/my-feature''
     = ''sprout-dotnet-feat-my-feature''
   \<and> tmuxWorktreeSessionNameFrom DefaultConfig ''dotnet'' ''feat/my feature'' ''/w/feat/my-feature''
     \<noteq> tmuxWorktreeSessionNameFrom DefaultConfig ''dotnet'' ''fix/other'' ''/w/fix/other''
   \<and> tmuxWorktreeSessionNameFrom (DefaultConfig\<lparr>BaseBranch := ''trunk''\<rparr>) ''dotnet''
        ''feat/my feature'' ''/w/feat/my-feature''
     = tmuxWorktreeSessionNameFrom DefaultConfig ''dotnet'' ''feat/my feature'' ''/w/feat/my-feature''"
proof -
  have a: "safeName (sessionToken ''feat/my feature'' ''/w/feat/my-feature'')
        \<noteq> safeName (sessionToken ''fix/other'' ''/w/fix/other'')" by code_simp
  have b: "length (tmuxSessionName DefaultConfig ''dotnet'' @ ''-''
        @ safeName (sessionToken ''feat/my feature'' ''/w/feat/my-feature'')) \<le> 100" by code_simp
  have c: "length (tmuxSessionName DefaultConfig ''dotnet'' @ ''-''
        @ safeName (sessionToken ''fix/other'' ''/w/fix/other'')) \<le> 100" by code_simp
  have d: "take 100 (tmuxSessionName DefaultConfig ''dotnet'' @ ''-''
        @ safeName (sessionToken ''feat/my feature'' ''/w/feat/my-feature''))
        = ''sprout-dotnet-feat-my-feature''" by code_simp
  have e: "SessionPrefix (DefaultConfig\<lparr>BaseBranch := ''trunk''\<rparr>) = SessionPrefix DefaultConfig"
    by simp
  note t = session_name_shape [of DefaultConfig "''dotnet''" "''feat/my feature''"
        "''/w/feat/my-feature''" "DefaultConfig\<lparr>BaseBranch := ''trunk''\<rparr>" "''fix/other''"
        "''/w/fix/other''"]
  from t d have 1: "tmuxWorktreeSessionNameFrom DefaultConfig ''dotnet'' ''feat/my feature''
      ''/w/feat/my-feature'' = ''sprout-dotnet-feat-my-feature''"
    by metis
  from t a b c have 2: "tmuxWorktreeSessionNameFrom DefaultConfig ''dotnet'' ''feat/my feature''
      ''/w/feat/my-feature''
     \<noteq> tmuxWorktreeSessionNameFrom DefaultConfig ''dotnet'' ''fix/other'' ''/w/fix/other''"
    by blast
  from t e have 3: "tmuxWorktreeSessionNameFrom (DefaultConfig\<lparr>BaseBranch := ''trunk''\<rparr>) ''dotnet''
        ''feat/my feature'' ''/w/feat/my-feature''
     = tmuxWorktreeSessionNameFrom DefaultConfig ''dotnet'' ''feat/my feature'' ''/w/feat/my-feature''"
    by blast
  from 1 2 3 show ?thesis by blast
qed

section \<open>The timeout of git worktree commands\<close>

lemma parseDigits_spec:
  "parseDigits ds acc =
     (if list_all isDigit ds then Some (foldl (\<lambda>acc c. acc * 10 + (of_char c - 48)) acc ds) else None)"
  by (induction ds arbitrary: acc) auto

lemma Atoi_spec:
  "Atoi s =
     (if isNumeric s \<and> - 9223372036854775808 \<le> numericValue s
         \<and> numericValue s \<le> 9223372036854775807
      then Some (numericValue s) else None)"
  by (auto simp: Atoi_def isNumeric_def numericValue_def unsigned_def parseDigits_spec Let_def)

text \<open>
  The claim C5 as written fails for a numeric value that does not fit the 64 bits of
  \<open>int\<close>: \<open>strconv.Atoi\<close> reports an error and the timeout is the default, not 600 s.
\<close>

theorem timeout_counterexample:
  "isNumeric ''99999999999999999999''
   \<and> gitWorktreeCommandTimeout (timeoutEnv ''99999999999999999999'')
       \<noteq> clampSeconds (numericValue ''99999999999999999999'') * Second"
  by code_simp

text \<open>
  Claim C5, amended. With the value of the variable trimmed of spaces: when it is
  numeric and fits the 64 bits of \<open>int\<close>, the timeout is that number of seconds clamped
  to the interval from 5 s to 600 s; in every other case (not numeric, empty, out of
  range), and when the variable is unset, it is 45 s.
\<close>

theorem gitWorktreeCommandTimeout_clamp:
  "gitWorktreeCommandTimeout env =
     (let raw = TrimSpace (Getenv env ''SPROUT_GIT_WORKTREE_TIMEOUT_SECONDS'')
      in if isNumeric raw \<and> - 9223372036854775808 \<le> numericValue raw
            \<and> numericValue raw \<le> 9223372036854775807
         then clampSeconds (numericValue raw) * Second
         else 45 * Second)
   \<and> (env ''SPROUT_GIT_WORKTREE_TIMEOUT_SECONDS'' = None \<longrightarrow>
        gitWorktreeCommandTimeout env = 45 * Second)"
proof (intro conjI impI)
  define raw where "raw = TrimSpace (Getenv env ''SPROUT_GIT_WORKTREE_TIMEOUT_SECONDS'')"
  have code: "gitWorktreeCommandTimeout env =
      (if raw = [] then 45 * Second
       else case Atoi raw of None \<Rightarrow> 45 * Second
            | Some seconds \<Rightarrow> clampSeconds seconds * Second)"
    by (simp add: gitWorktreeCommandTimeout_def raw_def Let_def clampSeconds_def max_def min_def
        split: option.splits)
  have e: "\<not> isNumeric []" by (simp add: isNumeric_def unsigned_def)
  show "gitWorktreeCommandTimeout env =
     (let raw = TrimSpace (Getenv env ''SPROUT_GIT_WORKTREE_TIMEOUT_SECONDS'')
      in if isNumeric raw \<and> - 9223372036854775808 \<le> numericValue raw
            \<and> numericValue raw \<le> 9223372036854775807
         then clampSeconds (numericValue raw) * Second
         else 45 * Second)"
    unfolding Let_def raw_def [symmetric] code
    using e by (cases "raw = []") (simp_all add: Atoi_spec)
  show "gitWorktreeCommandTimeout env = 45 * Second"
    if "env ''SPROUT_GIT_WORKTREE_TIMEOUT_SECONDS'' = None"
  proof -
    have "TrimSpace [] = []" by code_simp
    then have "raw = []" using that by (simp add: raw_def Getenv_def)
    then show ?thesis by (simp add: code)
  qed
qed

theorem gitWorktreeCommandTimeout_clamp_witness:
  "gitWorktreeCommandTimeout (timeoutEnv ''2'') = 5 * Second
   \<and> gitWorktreeCommandTimeout (timeoutEnv ''10000'') = 600 * Second
   \<and> gitWorktreeCommandTimeout (timeoutEnv ''120'') = 120 * Second
   \<and> gitWorktreeCommandTimeout (timeoutEnv ''soon'') = 45 * Second
   \<and> gitWorktreeCommandTimeout Map.empty = 45 * Second"
proof -
  have a: "TrimSpace (Getenv (timeoutEnv ''2'') ''SPROUT_GIT_WORKTREE_TIMEOUT_SECONDS'') = ''2''"
    "TrimSpace (Getenv (timeoutEnv ''10000'') ''SPROUT_GIT_WORKTREE_TIMEOUT_SECONDS'') = ''10000''"
    "TrimSpace (Getenv (timeoutEnv ''120'') ''SPROUT_GIT_WORKTREE_TIMEOUT_SECONDS'') = ''120''"
    "TrimSpace (Getenv (timeoutEnv ''soon'') ''SPROUT_GIT_WORKTREE_TIMEOUT_SECONDS'') = ''soon''"
    by code_simp+
  have b: "isNumeric ''2''" "numericValue ''2'' = 2" "isNumeric ''10000''"
    "numericValue ''10000'' = 10000" "isNumeric ''120''" "numericValue ''120'' = 120"
    "\<not> isNumeric ''soon''"
    by code_simp+
  have 1: "gitWorktreeCommandTimeout (timeoutEnv ''2'') = 5 * Second"
    using gitWorktreeCommandTimeout_clamp [of "timeoutEnv ''2''"]
    by (simp add: a b clampSeconds_def)
  have 2: "gitWorktreeCommandTimeout (timeoutEnv ''10000'') = 600 * Second"
    using gitWorktreeCommandTimeout_clamp [of "timeoutEnv ''10000''"]
    by (simp add: a b clampSeconds_def)
  have 3: "gitWorktreeCommandTimeout (timeoutEnv ''120'') = 120 * Second"
    using gitWorktreeCommandTimeout_clamp [of "timeoutEnv ''120''"]
    by (simp add: a b clampSeconds_def)
  have 4: "gitWorktreeCommandTimeout (timeoutEnv ''soon'') = 45 * Second"
    using gitWorktreeCommandTimeout_clamp [of "timeoutEnv ''soon''"]
    by (simp add: a b clampSeconds_def)
  have 5: "gitWorktreeCommandTimeout Map.empty = 45 * Second"
    using gitWorktreeCommandTimeout_clamp [of Map.empty] by simp
  from 1 2 3 4 5 show ?thesis by blast
qed

section \<open>Calls of the host\<close>

lemma perform_simps [simp]: "perform h c t = (reply h t c, t @ [c])"
  by (simp add: perform_def)

lemma runCmdBytesWithTimeout_eq:
  "runCmdBytesWithTimeout h dir timeout name args t
     = (reply h t (Exec dir timeout name args), t @ [Exec dir timeout name args])"
  by (simp add: runCmdBytesWithTimeout_def)

lemma runCmdQuietTimeout_eq:
  "runCmdQuietTimeout h dir timeout name args t
     = (errorOf (reply h t (Exec dir timeout name args)), t @ [Exec dir timeout name args])"
  by (simp add: runCmdQuietTimeout_def runCmdBytesWithTimeout_eq)

lemma runCmdQuiet_eq:
  "runCmdQuiet h dir name args t
     = (errorOf (reply h t (Exec dir 0 name args)), t @ [Exec dir 0 name args])"
  by (simp add: runCmdQuiet_def runCmdBytes_def runCmdBytesWithTimeout_eq)

lemma snd_runCmdOutput: "snd (runCmdOutput h dir name args t) = t @ [Exec dir 0 name args]"
  by (simp add: runCmdOutput_def runCmdBytes_def runCmdBytesWithTimeout_eq split: sum.splits)

lemma fst_runCmdOutput_isl:
  "isl (fst (runCmdOutput h dir name args t)) = isl (reply h t (Exec dir 0 name args))"
  by (simp add: runCmdOutput_def runCmdBytes_def runCmdBytesWithTimeout_eq split: sum.splits)

lemma errorOf_simps [simp]: "errorOf (Inl e) = Some e" "errorOf (Inr out) = None"
  by (simp_all add: errorOf_def)

lemma shouldRetryWorktreeAdd_iff:
  "shouldRetryWorktreeAdd tbl err \<longleftrightarrow> (\<exists>e. err = Some e \<and> mentions tbl addRetryMarks e)"
  by (cases err) (auto simp: shouldRetryWorktreeAdd_def mentions_def addRetryMarks_def Let_def)

lemma shouldRetryWorktreeRemove_iff:
  "shouldRetryWorktreeRemove tbl err \<longleftrightarrow> (\<exists>e. err = Some e \<and> mentions tbl removeRetryMarks e)"
  by (cases err) (auto simp: shouldRetryWorktreeRemove_def mentions_def removeRetryMarks_def Let_def)

lemma runGitWorktreeAdd_cases:
  "runGitWorktreeAdd h repoRoot args t =
     (let add = worktreeAddCall h repoRoot args in
      case reply h t add of
        Inr out \<Rightarrow> (None, t @ [add])
      | Inl e \<Rightarrow>
          if mentions (lowerTable h) addRetryMarks e
          then (errorOf (reply h (t @ [add, pruneCall repoRoot]) add),
                t @ [add, pruneCall repoRoot, add])
          else (Some e, t @ [add]))"
  by (simp add: runGitWorktreeAdd_def runCmdQuietTimeout_eq runCmdQuiet_eq worktreeAddCall_def
      pruneCall_def shouldRetryWorktreeAdd_iff Let_def split: sum.splits)

lemma tmuxHasSession_eq:
  "tmuxHasSession h session t
     = (\<not> isl (reply h t (Exec [] 0 ''tmux'' [''has-session'', ''-t'', session])),
        t @ [Exec [] 0 ''tmux'' [''has-session'', ''-t'', session]])"
  by (simp add: tmuxHasSession_def runCmdOutput_def runCmdBytes_def runCmdBytesWithTimeout_eq
      split: sum.splits)

lemma runGitWorktreeRemove_eq:
  "runGitWorktreeRemove h repoRoot p force t
     = (errorOf (reply h t (worktreeRemoveCall h repoRoot p force)),
        t @ [worktreeRemoveCall h repoRoot p force])"
  by (simp add: runGitWorktreeRemove_def runCmdQuietTimeout_eq worktreeRemoveCall_def Let_def)

lemma isWorktreeRemove_call [simp]:
  "isWorktreeRemove (worktreeRemoveCall h repoRoot p force)"
  "\<not> isWorktreeRemove (pruneCall repoRoot)"
  by (simp_all add: worktreeRemoveCall_def pruneCall_def)

lemma Remove_worktree_cases:
  fixes h repoRoot wt force session warnings t
  defines "rm \<equiv> worktreeRemoveCall h repoRoot (Path wt) force"
  defines "r \<equiv> Remove_worktree h repoRoot wt force session warnings t"
  shows "reply h t rm = Inr out \<Longrightarrow> r = ((warnings, None), t @ [rm])"
    and "reply h t rm = Inl e \<Longrightarrow> \<not> mentions (lowerTable h) removeRetryMarks e \<Longrightarrow>
           r = ((warnings, Some e), t @ [rm])"
    and "reply h t rm = Inl e \<Longrightarrow> mentions (lowerTable h) removeRetryMarks e \<Longrightarrow>
           take (length t + 2) (snd r) = t @ [rm, pruneCall repoRoot]
           \<and> last (snd r) = rm
           \<and> length (filter isWorktreeRemove (drop (length t) (snd r))) = 2"
    and "\<exists>rest. snd r = t @ rm # rest"
proof -
  show "reply h t rm = Inr out \<Longrightarrow> r = ((warnings, None), t @ [rm])"
    by (simp add: r_def rm_def Remove_worktree_def runGitWorktreeRemove_eq)
  show "reply h t rm = Inl e \<Longrightarrow> \<not> mentions (lowerTable h) removeRetryMarks e \<Longrightarrow>
           r = ((warnings, Some e), t @ [rm])"
    by (simp add: r_def rm_def Remove_worktree_def runGitWorktreeRemove_eq
        shouldRetryWorktreeRemove_iff)
  show "reply h t rm = Inl e \<Longrightarrow> mentions (lowerTable h) removeRetryMarks e \<Longrightarrow>
           take (length t + 2) (snd r) = t @ [rm, pruneCall repoRoot]
           \<and> last (snd r) = rm
           \<and> length (filter isWorktreeRemove (drop (length t) (snd r))) = 2"
    by (simp add: r_def rm_def Remove_worktree_def runGitWorktreeRemove_eq runCmdQuiet_eq
        tmuxHasSession_eq shouldRetryWorktreeRemove_iff pruneCall_def [symmetric]
        split: option.splits)
  show "\<exists>rest. snd r = t @ rm # rest"
    by (simp add: r_def rm_def Remove_worktree_def runGitWorktreeRemove_eq runCmdQuiet_eq
        tmuxHasSession_eq split: option.splits)
qed

section \<open>The retry heuristic\<close>

text \<open>
  The claim C4 as written fails: a message with \<open>timeout\<close> or \<open>cannot create\<close> in it
  does not start a retry. The code looks for \<open>timed out\<close> and \<open>unable to create\<close>.
\<close>

theorem retry_counterexample:
  "Contains ''git worktree add: connection timeout'' ''timeout''
   \<and> \<not> shouldRetryWorktreeAdd plainTable (Some (Error ''git worktree add: connection timeout''))
   \<and> \<not> shouldRetryWorktreeRemove plainTable (Some (Error ''git worktree add: connection timeout''))
   \<and> Contains ''fatal: cannot create directory'' ''cannot create''
   \<and> \<not> shouldRetryWorktreeAdd plainTable (Some (Error ''fatal: cannot create directory''))"
  by code_simp

text \<open>
  Claim C4, amended. An error of \<open>git worktree add\<close> starts the retry exactly when its
  message, in lower case, contains one of \<open>timed out\<close>, \<open>already checked out\<close>,
  \<open>already exists\<close>, \<open>already registered\<close>, \<open>unable to create\<close>, \<open>cannot lock\<close>; an
  error of \<open>git worktree remove\<close> exactly when it contains one of \<open>timed out\<close>,
  \<open>is locked\<close>, \<open>cannot remove\<close>, \<open>cannot lock\<close>. With a match the command runs a second
  time after \<open>git worktree prune\<close> (for a removal, the command runs exactly twice);
  without one the first error is returned and nothing else is called.
\<close>

theorem retry_heuristic:
  "(shouldRetryWorktreeAdd (lowerTable h) err
      \<longleftrightarrow> (\<exists>e. err = Some e \<and> mentions (lowerTable h) addRetryMarks e))
   \<and> (shouldRetryWorktreeRemove (lowerTable h) err
      \<longleftrightarrow> (\<exists>e. err = Some e \<and> mentions (lowerTable h) removeRetryMarks e))
   \<and> (reply h t (worktreeAddCall h repoRoot args) = Inl e \<longrightarrow>
        (if mentions (lowerTable h) addRetryMarks e
         then runGitWorktreeAdd h repoRoot args t
              = (errorOf (reply h (t @ [worktreeAddCall h repoRoot args, pruneCall repoRoot])
                           (worktreeAddCall h repoRoot args)),
                 t @ [worktreeAddCall h repoRoot args, pruneCall repoRoot,
                      worktreeAddCall h repoRoot args])
         else runGitWorktreeAdd h repoRoot args t
              = (Some e, t @ [worktreeAddCall h repoRoot args])))
   \<and> (reply h t (worktreeRemoveCall h repoRoot (Path wt) force) = Inl e \<longrightarrow>
        (if mentions (lowerTable h) removeRetryMarks e
         then take (length t + 2) (snd (Remove_worktree h repoRoot wt force session warnings t))
                = t @ [worktreeRemoveCall h repoRoot (Path wt) force, pruneCall repoRoot]
              \<and> last (snd (Remove_worktree h repoRoot wt force session warnings t))
                = worktreeRemoveCall h repoRoot (Path wt) force
              \<and> length (filter isWorktreeRemove
                    (drop (length t) (snd (Remove_worktree h repoRoot wt force session warnings t))))
                = 2
         else Remove_worktree h repoRoot wt force session warnings t
              = ((warnings, Some e), t @ [worktreeRemoveCall h repoRoot (Path wt) force])))"
proof (intro conjI impI)
  show "shouldRetryWorktreeAdd (lowerTable h) err
      \<longleftrightarrow> (\<exists>e. err = Some e \<and> mentions (lowerTable h) addRetryMarks e)"
    by (rule shouldRetryWorktreeAdd_iff)
  show "shouldRetryWorktreeRemove (lowerTable h) err
      \<longleftrightarrow> (\<exists>e. err = Some e \<and> mentions (lowerTable h) removeRetryMarks e)"
    by (rule shouldRetryWorktreeRemove_iff)
  show "if mentions (lowerTable h) addRetryMarks e
         then runGitWorktreeAdd h repoRoot args t
              = (errorOf (reply h (t @ [worktreeAddCall h repoRoot args, pruneCall repoRoot])
                           (worktreeAddCall h repoRoot args)),
                 t @ [worktreeAddCall h repoRoot args, pruneCall repoRoot,
                      worktreeAddCall h repoRoot args])
         else runGitWorktreeAdd h repoRoot args t
              = (Some e, t @ [worktreeAddCall h repoRoot args])"
    if "reply h t (worktreeAddCall h repoRoot args) = Inl e"
    using that by (simp add: runGitWorktreeAdd_cases Let_def)
  show "if mentions (lowerTable h) removeRetryMarks e
         then take (length t + 2) (snd (Remove_worktree h repoRoot wt force session warnings t))
                = t @ [worktreeRemoveCall h repoRoot (Path wt) force, pruneCall repoRoot]
              \<and> last (snd (Remove_worktree h repoRoot wt force session warnings t))
                = worktreeRemoveCall h repoRoot (Path wt) force
              \<and> length (filter isWorktreeRemove
                    (drop (length t) (snd (Remove_worktree h repoRoot wt force session warnings t))))
                = 2
         else Remove_worktree h repoRoot wt force session warnings t
              = ((warnings, Some e), t @ [worktreeRemoveCall h repoRoot (Path wt) force])"
    if "reply h t (worktreeRemoveCall h repoRoot (Path wt) force) = Inl e"
    using Remove_worktree_cases(2,3) [OF that] by (simp del: isWorktreeRemove.simps)
qed

theorem retry_heuristic_witness:
  "runGitWorktreeAdd
     (answeringAt 0 (Inl (Error ''fatal: /r/repo.worktrees/feat/y already exists'')) quietHost)
     ''/r/repo'' [''/r/repo.worktrees/feat/y'', ''feat/y''] []
   = (None,
      [worktreeAddCall quietHost ''/r/repo'' [''/r/repo.worktrees/feat/y'', ''feat/y''],
       pruneCall ''/r/repo'',
       worktreeAddCall quietHost ''/r/repo'' [''/r/repo.worktrees/feat/y'', ''feat/y'']])
   \<and> runGitWorktreeAdd
     (answeringAt 0 (Inl (Error ''fatal: invalid reference: feat/y'')) quietHost)
     ''/r/repo'' [''/r/repo.worktrees/feat/y'', ''feat/y''] []
   = (Some (Error ''fatal: invalid reference: feat/y''),
      [worktreeAddCall quietHost ''/r/repo'' [''/r/repo.worktrees/feat/y'', ''feat/y'']])
   \<and> Remove_worktree
     (answeringAt 0 (Inl (Error ''fatal: not a working tree'')) quietHost)
     ''/r/repo'' (newWorktree ''/r/repo.worktrees/feat/x'' ''feat/x'') False [] [] []
   = (([], Some (Error ''fatal: not a working tree'')),
      [worktreeRemoveCall quietHost ''/r/repo'' ''/r/repo.worktrees/feat/x'' False])
   \<and> length (filter isWorktreeRemove (snd (Remove_worktree
     (answeringAt 0 (Inl (Error ''fatal: /r/repo.worktrees/feat/x is locked'')) quietHost)
     ''/r/repo'' (newWorktree ''/r/repo.worktrees/feat/x'' ''feat/x'') False [] [] []))) = 2"
proof -
  let ?A = "answeringAt 0 (Inl (Error ''fatal: /r/repo.worktrees/feat/y already exists'')) quietHost"
  let ?B = "answeringAt 0 (Inl (Error ''fatal: invalid reference: feat/y'')) quietHost"
  let ?C = "answeringAt 0 (Inl (Error ''fatal: not a working tree'')) quietHost"
  let ?D = "answeringAt 0 (Inl (Error ''fatal: /r/repo.worktrees/feat/x is locked'')) quietHost"
  let ?args = "[''/r/repo.worktrees/feat/y'', ''feat/y'']"
  let ?wt = "newWorktree ''/r/repo.worktrees/feat/x'' ''feat/x''"
  have calls: "worktreeAddCall ?A ''/r/repo'' ?args = worktreeAddCall quietHost ''/r/repo'' ?args"
    "worktreeAddCall ?B ''/r/repo'' ?args = worktreeAddCall quietHost ''/r/repo'' ?args"
    "worktreeRemoveCall ?C ''/r/repo'' (Path ?wt) False
      = worktreeRemoveCall quietHost ''/r/repo'' ''/r/repo.worktrees/feat/x'' False"
    by (simp_all add: worktreeAddCall_def worktreeRemoveCall_def answeringAt_def newWorktree_def)
  have a: "reply ?A [] (worktreeAddCall ?A ''/r/repo'' ?args)
        = Inl (Error ''fatal: /r/repo.worktrees/feat/y already exists'')"
    "mentions (lowerTable ?A) addRetryMarks (Error ''fatal: /r/repo.worktrees/feat/y already exists'')"
    "errorOf (reply ?A ([] @ [worktreeAddCall ?A ''/r/repo'' ?args, pruneCall ''/r/repo''])
        (worktreeAddCall ?A ''/r/repo'' ?args)) = None"
    by code_simp+
  have b: "reply ?B [] (worktreeAddCall ?B ''/r/repo'' ?args)
        = Inl (Error ''fatal: invalid reference: feat/y'')"
    "\<not> mentions (lowerTable ?B) addRetryMarks (Error ''fatal: invalid reference: feat/y'')"
    by code_simp+
  have c: "reply ?C [] (worktreeRemoveCall ?C ''/r/repo'' (Path ?wt) False)
        = Inl (Error ''fatal: not a working tree'')"
    "\<not> mentions (lowerTable ?C) removeRetryMarks (Error ''fatal: not a working tree'')"
    by code_simp+
  have d: "reply ?D [] (worktreeRemoveCall ?D ''/r/repo'' (Path ?wt) False)
        = Inl (Error ''fatal: /r/repo.worktrees/feat/x is locked'')"
    "mentions (lowerTable ?D) removeRetryMarks (Error ''fatal: /r/repo.worktrees/feat/x is locked'')"
    by code_simp+
  have 1: "runGitWorktreeAdd ?A ''/r/repo'' ?args []
     = (None, [worktreeAddCall quietHost ''/r/repo'' ?args, pruneCall ''/r/repo'',
               worktreeAddCall quietHost ''/r/repo'' ?args])"
    using retry_heuristic [of ?A None "[]" "''/r/repo''" ?args
        "Error ''fatal: /r/repo.worktrees/feat/y already exists''" ?wt False "[]" "[]"] a
    by (simp add: calls)
  have 2: "runGitWorktreeAdd ?B ''/r/repo'' ?args []
     = (Some (Error ''fatal: invalid reference: feat/y''),
        [worktreeAddCall quietHost ''/r/repo'' ?args])"
    using retry_heuristic [of ?B None "[]" "''/r/repo''" ?args
        "Error ''fatal: invalid reference: feat/y''" ?wt False "[]" "[]"] b
    by (simp add: calls)
  have 3: "Remove_worktree ?C ''/r/repo'' ?wt False [] [] []
     = (([], Some (Error ''fatal: not a working tree'')),
        [worktreeRemoveCall quietHost ''/r/repo'' ''/r/repo.worktrees/feat/x'' False])"
    using retry_heuristic [of ?C None "[]" "''/r/repo''" ?args
        "Error ''fatal: not a working tree''" ?wt False "[]" "[]"] c
    by (simp add: calls)
  have 4: "length (filter isWorktreeRemove (snd (Remove_worktree ?D ''/r/repo'' ?wt False [] [] [])))
     = 2"
    using retry_heuristic [of ?D None "[]" "''/r/repo''" ?args
        "Error ''fatal: /r/repo.worktrees/feat/x is locked''" ?wt False "[]" "[]"] d
    by simp
  from 1 2 3 4 show ?thesis by blast
qed

section \<open>Creating a working copy with a new branch\<close>

text \<open>
  Claim C8. When the branch exists, \<open>CreateWorktreeWithBranch\<close> returns its error after the
  one call that checks the branch; when the branch does not exist and the target path
  does, it returns its error after the check of the path; in both cases, and whenever it
  makes a call of \<open>git worktree add\<close> at all, the branch was reported missing, the path was
  reported not to exist and the parent directory was made. When these three hold, the next
  call is \<open>git worktree add -b branch path base\<close>.
\<close>

theorem CreateWorktreeWithBranch_guards:
  "(reply h t (showRefCall repoRoot branch) = Inr out \<longrightarrow>
      CreateWorktreeWithBranch h repoRoot branch path base t
        = (Some (Error (''branch already exists: '' @ branch)), t @ [showRefCall repoRoot branch]))
   \<and> (reply h t (showRefCall repoRoot branch) = Inl e
       \<and> reply h (t @ [showRefCall repoRoot branch]) (Stat path) = Inr info \<longrightarrow>
      CreateWorktreeWithBranch h repoRoot branch path base t
        = (Some (Error (''target path already exists: '' @ path)),
           t @ [showRefCall repoRoot branch, Stat path]))
   \<and> (reply h t (showRefCall repoRoot branch) = Inl e
       \<and> reply h (t @ [showRefCall repoRoot branch]) (Stat path) = Inl (NotExistError m)
       \<and> reply h (t @ [showRefCall repoRoot branch, Stat path]) (MkdirAll (Dir path) 493) = Inr ok
      \<longrightarrow>
      CreateWorktreeWithBranch h repoRoot branch path base t
        = runGitWorktreeAdd h repoRoot [''-b'', branch, path, base]
            (t @ [showRefCall repoRoot branch, Stat path, MkdirAll (Dir path) 493])
      \<and> take (length t + 4) (snd (CreateWorktreeWithBranch h repoRoot branch path base t))
        = t @ [showRefCall repoRoot branch, Stat path, MkdirAll (Dir path) 493,
               worktreeAddCall h repoRoot [''-b'', branch, path, base]])
   \<and> (list_ex isWorktreeAdd
         (drop (length t) (snd (CreateWorktreeWithBranch h repoRoot branch path base t)))
       \<longrightarrow> isl (reply h t (showRefCall repoRoot branch))
           \<and> (\<exists>m. reply h (t @ [showRefCall repoRoot branch]) (Stat path) = Inl (NotExistError m))
           \<and> \<not> isl (reply h (t @ [showRefCall repoRoot branch, Stat path])
                       (MkdirAll (Dir path) 493)))"
proof (intro conjI impI)
  let ?sr = "showRefCall repoRoot branch"
  let ?C = "CreateWorktreeWithBranch h repoRoot branch path base t"
  have be: "BranchExists h repoRoot branch t = (\<not> isl (reply h t ?sr), t @ [?sr])"
    by (simp add: BranchExists_def runCmdOutput_def runCmdBytes_def runCmdBytesWithTimeout_def
        showRefCall_def errorOf_def split: sum.splits)
  show "?C = (Some (Error (''branch already exists: '' @ branch)), t @ [?sr])"
    if "reply h t ?sr = Inr out"
    using that by (simp add: CreateWorktreeWithBranch_def be)
  show "?C = (Some (Error (''target path already exists: '' @ path)), t @ [?sr, Stat path])"
    if "reply h t ?sr = Inl e \<and> reply h (t @ [?sr]) (Stat path) = Inr info"
    using that by (simp add: CreateWorktreeWithBranch_def be)
  have add_first: "take (Suc (length u)) (snd (runGitWorktreeAdd h repoRoot args u))
        = u @ [worktreeAddCall h repoRoot args]" for u args
    by (simp add: runGitWorktreeAdd_def runCmdQuietTimeout_def runCmdQuiet_def runCmdBytes_def
        runCmdBytesWithTimeout_def worktreeAddCall_def Let_def split: option.splits prod.splits)
  {
    assume a: "reply h t ?sr = Inl e
       \<and> reply h (t @ [?sr]) (Stat path) = Inl (NotExistError m)
       \<and> reply h (t @ [?sr, Stat path]) (MkdirAll (Dir path) 493) = Inr ok"
    then show eq: "?C = runGitWorktreeAdd h repoRoot [''-b'', branch, path, base]
            (t @ [?sr, Stat path, MkdirAll (Dir path) 493])"
      by (simp add: CreateWorktreeWithBranch_def be)
    show "take (length t + 4) (snd ?C)
        = t @ [?sr, Stat path, MkdirAll (Dir path) 493,
               worktreeAddCall h repoRoot [''-b'', branch, path, base]]"
    proof -
      have len: "length t + 4 = Suc (length (t @ [?sr, Stat path, MkdirAll (Dir path) 493]))"
        by simp
      show ?thesis
        by (simp only: eq len add_first append_assoc append.simps)
    qed
  }
  have nsr: "\<not> isWorktreeAdd ?sr" by (simp add: showRefCall_def)
  {
    assume ex: "list_ex isWorktreeAdd (drop (length t) (snd ?C))"
    show "isl (reply h t ?sr)"
      using ex nsr by (cases "reply h t ?sr") (simp_all add: CreateWorktreeWithBranch_def be)
    then obtain e' where e': "reply h t ?sr = Inl e'" by (cases "reply h t ?sr") auto
    show "\<exists>m. reply h (t @ [?sr]) (Stat path) = Inl (NotExistError m)"
    proof (cases "reply h (t @ [?sr]) (Stat path)")
      case (Inr info)
      then show ?thesis using ex nsr e' by (simp add: CreateWorktreeWithBranch_def be)
    next
      case (Inl err)
      then show ?thesis using ex nsr e'
        by (cases err) (simp_all add: CreateWorktreeWithBranch_def be)
    qed
    then obtain m' where m': "reply h (t @ [?sr]) (Stat path) = Inl (NotExistError m')" by blast
    show "\<not> isl (reply h (t @ [?sr, Stat path]) (MkdirAll (Dir path) 493))"
      using ex nsr e' m'
      by (cases "reply h (t @ [?sr, Stat path]) (MkdirAll (Dir path) 493)")
        (simp_all add: CreateWorktreeWithBranch_def be)
  }
qed


theorem CreateWorktreeWithBranch_guards_witness:
  "CreateWorktreeWithBranch
      (answering (showRefCall ''/r/repo'' ''feat/x'') (Inr []) quietHost)
      ''/r/repo'' ''feat/x'' ''/r/repo.worktrees/feat/x2'' ''main'' []
     = (Some (Error ''branch already exists: feat/x''), [showRefCall ''/r/repo'' ''feat/x''])
   \<and> CreateWorktreeWithBranch
      (answering (Stat ''/r/repo.worktrees/feat/x'') (Inr ''dir'') quietHost)
      ''/r/repo'' ''feat/y'' ''/r/repo.worktrees/feat/x'' ''main'' []
     = (Some (Error ''target path already exists: /r/repo.worktrees/feat/x''),
        [showRefCall ''/r/repo'' ''feat/y'', Stat ''/r/repo.worktrees/feat/x''])
   \<and> take 4 (snd (CreateWorktreeWithBranch quietHost
        ''/r/repo'' ''feat/y'' ''/r/repo.worktrees/feat/y'' ''main'' []))
     = [showRefCall ''/r/repo'' ''feat/y'', Stat ''/r/repo.worktrees/feat/y'',
        MkdirAll ''/r/repo.worktrees/feat'' 493,
        worktreeAddCall quietHost ''/r/repo''
          [''-b'', ''feat/y'', ''/r/repo.worktrees/feat/y'', ''main'']]"
proof -
  let ?A = "answering (showRefCall ''/r/repo'' ''feat/x'') (Inr []) quietHost"
  let ?B = "answering (Stat ''/r/repo.worktrees/feat/x'') (Inr ''dir'') quietHost"
  have a: "reply ?A [] (showRefCall ''/r/repo'' ''feat/x'') = Inr []" by code_simp
  have b: "reply ?B [] (showRefCall ''/r/repo'' ''feat/y'')
        = Inl (Error ''git show-ref failed: exit status 1'')"
    "reply ?B ([] @ [showRefCall ''/r/repo'' ''feat/y'']) (Stat ''/r/repo.worktrees/feat/x'')
        = Inr ''dir''"
    by code_simp+
  have c: "reply quietHost [] (showRefCall ''/r/repo'' ''feat/y'')
        = Inl (Error ''git show-ref failed: exit status 1'')"
    "reply quietHost ([] @ [showRefCall ''/r/repo'' ''feat/y'']) (Stat ''/r/repo.worktrees/feat/y'')
        = Inl (NotExistError ''stat /r/repo.worktrees/feat/y: no such file or directory'')"
    "reply quietHost ([] @ [showRefCall ''/r/repo'' ''feat/y'', Stat ''/r/repo.worktrees/feat/y''])
        (MkdirAll (Dir ''/r/repo.worktrees/feat/y'') 493) = Inr []"
    "Dir ''/r/repo.worktrees/feat/y'' = ''/r/repo.worktrees/feat''"
    by code_simp+
  have 1: "CreateWorktreeWithBranch ?A ''/r/repo'' ''feat/x'' ''/r/repo.worktrees/feat/x2'' ''main'' []
     = (Some (Error ''branch already exists: feat/x''), [showRefCall ''/r/repo'' ''feat/x''])"
    using CreateWorktreeWithBranch_guards [of ?A "[]" "''/r/repo''" "''feat/x''" "[]"
        "''/r/repo.worktrees/feat/x2''" "''main''"] a
    by simp
  have 2: "CreateWorktreeWithBranch ?B ''/r/repo'' ''feat/y'' ''/r/repo.worktrees/feat/x'' ''main'' []
     = (Some (Error ''target path already exists: /r/repo.worktrees/feat/x''),
        [showRefCall ''/r/repo'' ''feat/y'', Stat ''/r/repo.worktrees/feat/x''])"
    using CreateWorktreeWithBranch_guards [of ?B "[]" "''/r/repo''" "''feat/y''" "[]"
        "''/r/repo.worktrees/feat/x''" "''main''" "Error ''git show-ref failed: exit status 1''"
        "''dir''"] b
    by simp
  have "take (length ([]::call list) + 4) (snd (CreateWorktreeWithBranch quietHost
        ''/r/repo'' ''feat/y'' ''/r/repo.worktrees/feat/y'' ''main'' []))
     = [] @ [showRefCall ''/r/repo'' ''feat/y'', Stat ''/r/repo.worktrees/feat/y'',
        MkdirAll (Dir ''/r/repo.worktrees/feat/y'') 493,
        worktreeAddCall quietHost ''/r/repo''
          [''-b'', ''feat/y'', ''/r/repo.worktrees/feat/y'', ''main'']]"
    using CreateWorktreeWithBranch_guards [of quietHost "[]" "''/r/repo''" "''feat/y''" "[]"
        "''/r/repo.worktrees/feat/y''" "''main''" "Error ''git show-ref failed: exit status 1''"
        "[]" "''stat /r/repo.worktrees/feat/y: no such file or directory''" "[]"] c(1,2,3)
    by blast
  then have 3: "take 4 (snd (CreateWorktreeWithBranch quietHost
        ''/r/repo'' ''feat/y'' ''/r/repo.worktrees/feat/y'' ''main'' []))
     = [showRefCall ''/r/repo'' ''feat/y'', Stat ''/r/repo.worktrees/feat/y'',
        MkdirAll ''/r/repo.worktrees/feat'' 493,
        worktreeAddCall quietHost ''/r/repo''
          [''-b'', ''feat/y'', ''/r/repo.worktrees/feat/y'', ''main'']]"
    by (simp add: c(4))
  from 1 2 3 show ?thesis by blast
qed

section \<open>Removing a working copy whose status cannot be read\<close>

lemma runCmdOutput_ext: "prefix t u \<Longrightarrow> prefix t (snd (runCmdOutput h dir name args u))"
  by (simp add: snd_runCmdOutput prefix_order.trans)

lemma absPath_ext: "prefix t u \<Longrightarrow> prefix t (snd (absPath h p u))"
  by (auto simp: absPath_def Abs_def prefix_order.trans split: sum.splits)

lemma WorktreeDirty_ext: "prefix t u \<Longrightarrow> prefix t (snd (WorktreeDirty h p u))"
  by (auto simp: WorktreeDirty_def split_beta intro: runCmdOutput_ext split: sum.splits)

lemma RepoName_ext: "prefix t u \<Longrightarrow> prefix t (snd (RepoName h root u))"
  by (auto simp: RepoName_def split_beta intro: runCmdOutput_ext split: sum.splits)

lemma tmuxHasSession_ext: "prefix t u \<Longrightarrow> prefix t (snd (tmuxHasSession h s u))"
  by (simp add: tmuxHasSession_eq prefix_order.trans)

lemma tmuxWindowExists_ext: "prefix t u \<Longrightarrow> prefix t (snd (tmuxWindowExists h s w u))"
  by (auto simp: tmuxWindowExists_def split_beta intro: runCmdOutput_ext)

lemma RequireRepo_ext: "prefix t u \<Longrightarrow> prefix t (snd (RequireRepo h u))"
  by (auto simp: RequireRepo_def split_beta intro: runCmdOutput_ext split: sum.splits)

lemma parseWorktreeList_ext: "prefix t u \<Longrightarrow> prefix t (snd (parseWorktreeList h root u))"
  by (auto simp: parseWorktreeList_def split_beta intro: runCmdOutput_ext split: sum.splits)

lemma commandExists_ext: "prefix t u \<Longrightarrow> prefix t (snd (commandExists h n u))"
  by (simp add: commandExists_def prefix_order.trans)

lemma fillItems_ext: "prefix t u \<Longrightarrow> prefix t (snd (fillItems h cfg root cur tm its u))"
proof (induction its arbitrary: u tm)
  case Nil
  then show ?case by simp
next
  case (Cons it its)
  show ?case
    using Cons.prems
    by (auto simp: split_beta Let_def split: bool.splits
        intro!: Cons.IH tmuxWindowExists_ext tmuxHasSession_ext RepoName_ext WorktreeDirty_ext
          absPath_ext)
qed

lemma ListWorktrees_ext: "prefix t u \<Longrightarrow> prefix t (snd (ListWorktrees h cfg u))"
  by (auto simp: ListWorktrees_def split_beta split: sum.splits
      intro!: fillItems_ext commandExists_ext absPath_ext parseWorktreeList_ext RequireRepo_ext)

lemma BranchCheckedOutAnywhere_ext:
  "prefix t u \<Longrightarrow> prefix t (snd (BranchCheckedOutAnywhere h cfg b u))"
  by (auto simp: BranchCheckedOutAnywhere_def split_beta split: sum.splits
      intro!: ListWorktrees_ext)

lemma Remove_branch_ext:
  "prefix t u \<Longrightarrow> prefix t (snd (Remove_branch h cfg opts root wt ws u))"
  by (auto simp: Remove_branch_def runCmdQuiet_eq split_beta Let_def prefix_order.trans
      split: bool.splits option.splits intro!: BranchCheckedOutAnywhere_ext)


lemma Remove_stopSession_ext:
  "prefix t u \<Longrightarrow> prefix t (snd (Remove_stopSession h cfg root wt u))"
  by (auto simp: Remove_stopSession_def runCmdQuiet_eq split_beta Let_def prefix_order.trans
      split: bool.splits option.splits
      intro!: tmuxHasSession_ext RepoName_ext commandExists_ext)

lemma WorktreeDirty_failed:
  "reply h t (statusCall path) = Inl e \<Longrightarrow> WorktreeDirty h path t = (False, t @ [statusCall path])"
  by (simp add: WorktreeDirty_def runCmdOutput_def runCmdBytes_def runCmdBytesWithTimeout_eq
      statusCall_def)

lemma WorktreeDirty_output:
  "reply h t (statusCall path) = Inr out \<Longrightarrow>
     WorktreeDirty h path t = (TrimSpace (TrimRight out [CHR 0x0A]) \<noteq> [], t @ [statusCall path])"
  by (simp add: WorktreeDirty_def runCmdOutput_def runCmdBytes_def runCmdBytesWithTimeout_eq
      statusCall_def)

lemma Remove_worktree_error:
  assumes "fst (Remove_worktree h repoRoot wt force session warnings t) = (ws, Some err)"
  shows "\<exists>u. prefix t u
             \<and> prefix (u @ [worktreeRemoveCall h repoRoot (Path wt) force])
                 (snd (Remove_worktree h repoRoot wt force session warnings t))
             \<and> reply h u (worktreeRemoveCall h repoRoot (Path wt) force) = Inl err"
proof -
  let ?rm = "worktreeRemoveCall h repoRoot (Path wt) force"
  let ?r = "Remove_worktree h repoRoot wt force session warnings t"
  show ?thesis
  proof (cases "reply h t ?rm")
    case (Inr out)
    with assms show ?thesis
      by (simp add: Remove_worktree_def runGitWorktreeRemove_eq)
  next
    case (Inl e)
    show ?thesis
    proof (cases "shouldRetryWorktreeRemove (lowerTable h) (Some e)")
      case False
      with Inl assms have "err = e" "snd ?r = t @ [?rm]"
        by (simp_all add: Remove_worktree_def runGitWorktreeRemove_eq)
      with Inl show ?thesis by (intro exI [of _ t]) simp
    next
      case True
      let ?t2 = "(t @ [?rm]) @ [Exec repoRoot 0 ''git'' [''worktree'', ''prune'']]"
      obtain alive t3 where A: "(if session \<noteq> [] then tmuxHasSession h session ?t2 else (False, ?t2))
          = (alive, t3)" by (metis prod.exhaust)
      obtain ign t4 where B: "(if alive
           then runCmdQuiet h [] ''tmux'' [''kill-session'', ''-t'', session] t3
           else (None, t3)) = (ign, t4)" by (metis prod.exhaust)
      have p3: "prefix ?t2 t3" using A by (auto simp: tmuxHasSession_eq split: if_splits)
      have p4: "prefix t3 t4" using B by (auto simp: runCmdQuiet_eq split: if_splits)
      have "prefix t ?t2" by simp
      with p3 p4 have p: "prefix t t4" by (meson prefix_order.trans)
      have R: "?r = (case runGitWorktreeRemove h repoRoot (Path wt) force t4 of
                  (None, t5) \<Rightarrow>
                    ((warnings @ [''worktree removal required a retry after cleanup''], None), t5)
                | (Some retryErr, t5) \<Rightarrow> ((warnings, Some retryErr), t5))"
        using Inl True A B
        by (simp add: Remove_worktree_def runGitWorktreeRemove_eq runCmdQuiet_eq [of h repoRoot]
            split del: if_split)
      show ?thesis
      proof (cases "reply h t4 ?rm")
        case (Inr out)
        with R assms show ?thesis by (simp add: runGitWorktreeRemove_eq)
      next
        case e2: (Inl e2)
        with R assms have "err = e2" "snd ?r = t4 @ [?rm]"
          by (simp_all add: runGitWorktreeRemove_eq)
        with e2 p show ?thesis by (intro exI [of _ t4]) simp
      qed
    qed
  qed
qed

lemma Remove_branch_result:
  assumes "fst (Remove_branch h cfg opts repoRoot wt warnings t) = (p, ws, r)"
  shows "(r = None \<longrightarrow> p = Path wt)
       \<and> (\<forall>err. r = Some err \<longrightarrow> p = [] \<and> (\<exists>u c. prefix t u
             \<and> prefix (u @ [c]) (snd (Remove_branch h cfg opts repoRoot wt warnings t))
             \<and> reply h u c = Inl err))"
proof (cases "rmDeleteBranch opts \<and> Branch wt \<noteq> []")
  case False
  with assms show ?thesis by (auto simp: Remove_branch_def)
next
  case True
  obtain b t1 where B: "BranchCheckedOutAnywhere h cfg (Branch wt) t = (b, t1)"
    by (metis prod.exhaust)
  have "prefix t (snd (BranchCheckedOutAnywhere h cfg (Branch wt) t))"
    by (rule BranchCheckedOutAnywhere_ext) simp
  with B have p: "prefix t t1" by simp
  show ?thesis
  proof (cases b)
    case True
    with assms \<open>rmDeleteBranch opts \<and> Branch wt \<noteq> []\<close> B show ?thesis
      by (simp add: Remove_branch_def)
  next
    case False
    let ?c = "Exec repoRoot 0 ''git''
        (''branch'' # (if rmForce opts then [''-D''] else [''-d'']) @ [Branch wt])"
    have R: "Remove_branch h cfg opts repoRoot wt warnings t
        = (case errorOf (reply h t1 ?c) of
             Some err \<Rightarrow> (([], warnings, Some err), t1 @ [?c])
           | None \<Rightarrow> ((Path wt, warnings, None), t1 @ [?c]))"
      using False \<open>rmDeleteBranch opts \<and> Branch wt \<noteq> []\<close> B
      by (simp add: Remove_branch_def runCmdQuiet_eq Let_def split del: if_split)
    show ?thesis
    proof (cases "reply h t1 ?c")
      case (Inr out)
      with R assms show ?thesis by simp
    next
      case (Inl e)
      with R assms have "r = Some e" "p = []"
        "snd (Remove_branch h cfg opts repoRoot wt warnings t) = t1 @ [?c]"
        by simp_all
      with Inl p show ?thesis by (auto intro!: exI [of _ t1] exI [of _ ?c])
    qed
  qed
qed


text \<open>
  Claim C10. When the status command fails, \<open>WorktreeDirty\<close> answers false. So when
  \<open>Remove\<close> has found the working copy, force is not set and the status command fails,
  \<open>Remove\<close> does not stop with the error of a dirty working copy: it goes on, and
  \<open>git worktree remove\<close> is among its later calls. What \<open>Remove\<close> returns is then what
  the removal gives: when \<open>git worktree remove\<close> succeeds and no branch is to be deleted,
  the path of the working copy with the warnings of the session stop and no error; when it
  fails with an error that starts no retry, that error; an error returned in any case is
  one that the host gave to a call made after the status command; and a result without
  error carries the path of the working copy. When the status command prints something
  instead, \<open>Remove\<close> stops there with the error of a dirty working copy.
\<close>

theorem Remove_after_failed_status:
  "(reply h t (statusCall path) = Inl e \<longrightarrow>
      WorktreeDirty h path t = (False, t @ [statusCall path]))
   \<and> (RequireRepo h t = (Inr repoRoot, t1)
       \<and> FindWorktree h cfg (rmTarget opts) t1 = (Inr wt, t2)
       \<and> \<not> rmForce opts
       \<and> reply h t2 (statusCall (Path wt)) = Inl e \<longrightarrow>
      Remove h cfg opts t \<noteq> (([], [], Some (dirtyError wt)), t2 @ [statusCall (Path wt)])
      \<and> prefix (t2 @ [statusCall (Path wt)]) (snd (Remove h cfg opts t))
      \<and> worktreeRemoveCall h repoRoot (Path wt) False
          \<in> set (drop (length t2 + 1) (snd (Remove h cfg opts t)))
      \<and> (Remove_stopSession h cfg repoRoot wt (t2 @ [statusCall (Path wt)])
            = ((session, warnings), t4) \<longrightarrow>
          (reply h t4 (worktreeRemoveCall h repoRoot (Path wt) False) = Inr removed
             \<and> \<not> rmDeleteBranch opts \<longrightarrow>
           Remove h cfg opts t
             = ((Path wt, warnings, None),
                t4 @ [worktreeRemoveCall h repoRoot (Path wt) False]))
          \<and> (reply h t4 (worktreeRemoveCall h repoRoot (Path wt) False) = Inl failed
             \<and> \<not> mentions (lowerTable h) removeRetryMarks failed \<longrightarrow>
           Remove h cfg opts t
             = (([], warnings, Some failed),
                t4 @ [worktreeRemoveCall h repoRoot (Path wt) False])))
      \<and> (fst (Remove h cfg opts t) = (p, ws, Some err) \<longrightarrow>
          p = []
          \<and> (\<exists>u c. prefix (t2 @ [statusCall (Path wt)]) u
                 \<and> prefix (u @ [c]) (snd (Remove h cfg opts t))
                 \<and> reply h u c = Inl err))
      \<and> (fst (Remove h cfg opts t) = (p, ws, None) \<longrightarrow> p = Path wt))
   \<and> (RequireRepo h t = (Inr repoRoot, t1)
       \<and> FindWorktree h cfg (rmTarget opts) t1 = (Inr wt, t2)
       \<and> \<not> rmForce opts
       \<and> reply h t2 (statusCall (Path wt)) = Inr out
       \<and> TrimSpace (TrimRight out [CHR 0x0A]) \<noteq> [] \<longrightarrow>
      Remove h cfg opts t = (([], [], Some (dirtyError wt)), t2 @ [statusCall (Path wt)]))"
proof (intro conjI impI)
  show "WorktreeDirty h path t = (False, t @ [statusCall path])"
    if "reply h t (statusCall path) = Inl e"
    using that by (rule WorktreeDirty_failed)
  show "Remove h cfg opts t = (([], [], Some (dirtyError wt)), t2 @ [statusCall (Path wt)])"
    if "RequireRepo h t = (Inr repoRoot, t1)
       \<and> FindWorktree h cfg (rmTarget opts) t1 = (Inr wt, t2)
       \<and> \<not> rmForce opts
       \<and> reply h t2 (statusCall (Path wt)) = Inr out
       \<and> TrimSpace (TrimRight out [CHR 0x0A]) \<noteq> []"
    using that by (simp add: Remove_def WorktreeDirty_output)
next
  assume a: "RequireRepo h t = (Inr repoRoot, t1)
       \<and> FindWorktree h cfg (rmTarget opts) t1 = (Inr wt, t2)
       \<and> \<not> rmForce opts
       \<and> reply h t2 (statusCall (Path wt)) = Inl e"
  let ?t3 = "t2 @ [statusCall (Path wt)]"
  let ?rm = "worktreeRemoveCall h repoRoot (Path wt) False"
  obtain s sw u4 where S: "Remove_stopSession h cfg repoRoot wt ?t3 = ((s, sw), u4)"
    by (metis prod.exhaust)
  have "prefix ?t3 (snd (Remove_stopSession h cfg repoRoot wt ?t3))"
    by (rule Remove_stopSession_ext) simp
  then have p34: "prefix ?t3 u4" by (simp add: S)
  then obtain x where u4: "u4 = ?t3 @ x" by (auto simp: prefix_def)
  obtain w5 r5 t5 where RW: "Remove_worktree h repoRoot wt False s sw u4 = ((w5, r5), t5)"
    by (metis prod.exhaust)
  obtain rest where W: "t5 = u4 @ ?rm # rest"
    using Remove_worktree_cases(4) [of h repoRoot wt False s sw u4] by (auto simp: RW)
  then have p45: "prefix u4 t5" by simp
  have RM: "Remove h cfg opts t
      = (case r5 of Some err \<Rightarrow> (([], w5, Some err), t5)
                  | None \<Rightarrow> Remove_branch h cfg opts repoRoot wt w5 t5)"
    using a by (simp add: Remove_def WorktreeDirty_failed S RW split: option.splits)
  have "prefix t5 (snd (Remove_branch h cfg opts repoRoot wt w5 t5))"
    by (rule Remove_branch_ext) simp
  then have "prefix t5 (snd (Remove h cfg opts t))"
    by (simp add: RM split: option.splits)
  then obtain y where tr: "snd (Remove h cfg opts t) = ?t3 @ x @ ?rm # rest @ y"
    by (auto simp: prefix_def W u4)
  show "Remove h cfg opts t \<noteq> (([], [], Some (dirtyError wt)), t2 @ [statusCall (Path wt)])"
    using tr by (cases "Remove h cfg opts t") auto
  show "prefix (t2 @ [statusCall (Path wt)]) (snd (Remove h cfg opts t))"
    by (simp add: tr)
  have "drop (length t2 + 1) (snd (Remove h cfg opts t)) = x @ ?rm # rest @ y"
    by (simp add: tr)
  then show "?rm \<in> set (drop (length t2 + 1) (snd (Remove h cfg opts t)))"
    by simp
  show "p = Path wt" if n: "fst (Remove h cfg opts t) = (p, ws, None)"
  proof (cases r5)
    case None
    with RM n have "fst (Remove_branch h cfg opts repoRoot wt w5 t5) = (p, ws, None)" by simp
    from Remove_branch_result [OF this] show ?thesis by simp
  next
    case (Some e5)
    with RM n show ?thesis by simp
  qed
  show "p = []" if n: "fst (Remove h cfg opts t) = (p, ws, Some err)"
  proof (cases r5)
    case None
    with RM n have "fst (Remove_branch h cfg opts repoRoot wt w5 t5) = (p, ws, Some err)" by simp
    from Remove_branch_result [OF this] show ?thesis by simp
  next
    case (Some e5)
    with RM n show ?thesis by simp
  qed
  show "\<exists>u c. prefix (t2 @ [statusCall (Path wt)]) u
                 \<and> prefix (u @ [c]) (snd (Remove h cfg opts t))
                 \<and> reply h u c = Inl err"
    if n: "fst (Remove h cfg opts t) = (p, ws, Some err)"
  proof (cases r5)
    case None
    with RM n have *: "fst (Remove_branch h cfg opts repoRoot wt w5 t5) = (p, ws, Some err)"
      by simp
    from Remove_branch_result [OF *] obtain u c where
      "prefix t5 u" "prefix (u @ [c]) (snd (Remove_branch h cfg opts repoRoot wt w5 t5))"
      "reply h u c = Inl err" by blast
    moreover have "prefix ?t3 t5" using p34 p45 by (rule prefix_order.trans)
    ultimately show ?thesis using RM None
      by (intro exI [of _ u] exI [of _ c]) (auto intro: prefix_order.trans)
  next
    case (Some e5)
    with RM n have e5: "e5 = err" and sn: "snd (Remove h cfg opts t) = t5" by simp_all
    from RW Some e5 have "fst (Remove_worktree h repoRoot wt False s sw u4) = (w5, Some err)"
      by simp
    from Remove_worktree_error [OF this] obtain u where
      "prefix u4 u" "prefix (u @ [?rm]) (snd (Remove_worktree h repoRoot wt False s sw u4))"
      "reply h u ?rm = Inl err" by blast
    then show ?thesis using p34 sn RW
      by (intro exI [of _ u] exI [of _ ?rm]) (auto intro: prefix_order.trans)
  qed
next
  assume a: "RequireRepo h t = (Inr repoRoot, t1)
       \<and> FindWorktree h cfg (rmTarget opts) t1 = (Inr wt, t2)
       \<and> \<not> rmForce opts
       \<and> reply h t2 (statusCall (Path wt)) = Inl e"
    and S: "Remove_stopSession h cfg repoRoot wt (t2 @ [statusCall (Path wt)])
            = ((session, warnings), t4)"
    and r: "reply h t4 (worktreeRemoveCall h repoRoot (Path wt) False) = Inr removed
             \<and> \<not> rmDeleteBranch opts"
  from r have "Remove_worktree h repoRoot wt False session warnings t4
      = ((warnings, None), t4 @ [worktreeRemoveCall h repoRoot (Path wt) False])"
    using Remove_worktree_cases(1) by blast
  with a S r show "Remove h cfg opts t
             = ((Path wt, warnings, None),
                t4 @ [worktreeRemoveCall h repoRoot (Path wt) False])"
    by (simp add: Remove_def WorktreeDirty_failed Remove_branch_def)
next
  assume a: "RequireRepo h t = (Inr repoRoot, t1)
       \<and> FindWorktree h cfg (rmTarget opts) t1 = (Inr wt, t2)
       \<and> \<not> rmForce opts
       \<and> reply h t2 (statusCall (Path wt)) = Inl e"
    and S: "Remove_stopSession h cfg repoRoot wt (t2 @ [statusCall (Path wt)])
            = ((session, warnings), t4)"
    and r: "reply h t4 (worktreeRemoveCall h repoRoot (Path wt) False) = Inl failed
             \<and> \<not> mentions (lowerTable h) removeRetryMarks failed"
  from r have "Remove_worktree h repoRoot wt False session warnings t4
      = ((warnings, Some failed), t4 @ [worktreeRemoveCall h repoRoot (Path wt) False])"
    using Remove_worktree_cases(2) by blast
  with a S show "Remove h cfg opts t
             = (([], warnings, Some failed),
                t4 @ [worktreeRemoveCall h repoRoot (Path wt) False])"
    by (simp add: Remove_def WorktreeDirty_failed)
qed


theorem Remove_after_failed_status_witness:
  "fst (WorktreeDirty
     (answering (statusCall ''/r/repo.worktrees/feat/x'')
        (Inl (Error ''git status failed: exit status 128'')) quietHost)
     ''/r/repo.worktrees/feat/x'' []) = False
   \<and> worktreeRemoveCall quietHost ''/r/repo'' ''/r/repo.worktrees/feat/x'' False
      \<in> set (snd (Remove
          (answering (statusCall ''/r/repo.worktrees/feat/x'')
             (Inl (Error ''git status failed: exit status 128'')) quietHost)
          DefaultConfig \<lparr>rmTarget = ''feat/x'', rmForce = False, rmDeleteBranch = False\<rparr> []))
   \<and> Remove
       (answering (statusCall ''/r/repo.worktrees/feat/x'')
          (Inl (Error ''git status failed: exit status 128'')) quietHost)
       DefaultConfig \<lparr>rmTarget = ''feat/x'', rmForce = False, rmDeleteBranch = False\<rparr> []
     = ((''/r/repo.worktrees/feat/x'', [], None),
        [Exec [] 0 ''git'' [''rev-parse'', ''--show-toplevel''],
         Exec [] 0 ''git'' [''rev-parse'', ''--show-toplevel''],
         Exec ''/r/repo'' 0 ''git'' [''worktree'', ''list'', ''--porcelain''],
         LookPath ''tmux'',
         statusCall ''/r/repo'',
         statusCall ''/r/repo.worktrees/feat/x'',
         Stat ''feat/x'',
         statusCall ''/r/repo.worktrees/feat/x'',
         LookPath ''tmux'',
         Exec ''/r/repo'' 45000000000 ''git''
           [''worktree'', ''remove'', ''/r/repo.worktrees/feat/x'']])
   \<and> fst (Remove
       (answering
          (Exec ''/r/repo'' 45000000000 ''git''
             [''worktree'', ''remove'', ''/r/repo.worktrees/feat/x''])
          (Inl (Error ''fatal: not a working tree''))
          (answering (statusCall ''/r/repo.worktrees/feat/x'')
             (Inl (Error ''git status failed: exit status 128'')) quietHost))
       DefaultConfig \<lparr>rmTarget = ''feat/x'', rmForce = False, rmDeleteBranch = False\<rparr> [])
     = ([], [], Some (Error ''fatal: not a working tree''))
   \<and> Remove
       (answering (statusCall ''/r/repo.worktrees/feat/x'') (Inr '' M notes.txt'') quietHost)
       DefaultConfig \<lparr>rmTarget = ''feat/x'', rmForce = False, rmDeleteBranch = False\<rparr> []
     = (([], [], Some (dirtyError
           \<lparr>Path = ''/r/repo.worktrees/feat/x'', Branch = ''feat/x'', Current = False,
            Dirty = True, TmuxState = ''n/a'', AgentState = ''n/a''\<rparr>)),
        [Exec [] 0 ''git'' [''rev-parse'', ''--show-toplevel''],
         Exec [] 0 ''git'' [''rev-parse'', ''--show-toplevel''],
         Exec ''/r/repo'' 0 ''git'' [''worktree'', ''list'', ''--porcelain''],
         LookPath ''tmux'',
         statusCall ''/r/repo'',
         statusCall ''/r/repo.worktrees/feat/x'',
         Stat ''feat/x''] @ [statusCall ''/r/repo.worktrees/feat/x''])"
proof -
  let ?H = "answering (statusCall ''/r/repo.worktrees/feat/x'')
        (Inl (Error ''git status failed: exit status 128'')) quietHost"
  let ?F = "answering
          (Exec ''/r/repo'' 45000000000 ''git''
             [''worktree'', ''remove'', ''/r/repo.worktrees/feat/x''])
          (Inl (Error ''fatal: not a working tree'')) ?H"
  let ?G = "answering (statusCall ''/r/repo.worktrees/feat/x'') (Inr '' M notes.txt'') quietHost"
  let ?opts = "\<lparr>rmTarget = ''feat/x'', rmForce = False, rmDeleteBranch = False\<rparr>"
  let ?t1 = "[Exec [] 0 ''git'' [''rev-parse'', ''--show-toplevel'']]"
  let ?t2 = "[Exec [] 0 ''git'' [''rev-parse'', ''--show-toplevel''],
         Exec [] 0 ''git'' [''rev-parse'', ''--show-toplevel''],
         Exec ''/r/repo'' 0 ''git'' [''worktree'', ''list'', ''--porcelain''],
         LookPath ''tmux'',
         statusCall ''/r/repo'',
         statusCall ''/r/repo.worktrees/feat/x'',
         Stat ''feat/x'']"
  let ?t4 = "[Exec [] 0 ''git'' [''rev-parse'', ''--show-toplevel''],
         Exec [] 0 ''git'' [''rev-parse'', ''--show-toplevel''],
         Exec ''/r/repo'' 0 ''git'' [''worktree'', ''list'', ''--porcelain''],
         LookPath ''tmux'',
         statusCall ''/r/repo'',
         statusCall ''/r/repo.worktrees/feat/x'',
         Stat ''feat/x'',
         statusCall ''/r/repo.worktrees/feat/x'',
         LookPath ''tmux'']"
  let ?rm = "Exec ''/r/repo'' 45000000000 ''git''
           [''worktree'', ''remove'', ''/r/repo.worktrees/feat/x'']"
  let ?wt = "\<lparr>Path = ''/r/repo.worktrees/feat/x'', Branch = ''feat/x'', Current = False,
            Dirty = False, TmuxState = ''n/a'', AgentState = ''n/a''\<rparr>"
  let ?wd = "\<lparr>Path = ''/r/repo.worktrees/feat/x'', Branch = ''feat/x'', Current = False,
            Dirty = True, TmuxState = ''n/a'', AgentState = ''n/a''\<rparr>"
  have h: "reply ?H [] (statusCall ''/r/repo.worktrees/feat/x'')
        = Inl (Error ''git status failed: exit status 128'')"
    "RequireRepo ?H [] = (Inr ''/r/repo'', ?t1)"
    "FindWorktree ?H DefaultConfig (rmTarget ?opts) ?t1 = (Inr ?wt, ?t2)"
    "\<not> rmForce ?opts"
    "reply ?H ?t2 (statusCall (Path ?wt)) = Inl (Error ''git status failed: exit status 128'')"
    "worktreeRemoveCall ?H ''/r/repo'' (Path ?wt) False
       = worktreeRemoveCall quietHost ''/r/repo'' ''/r/repo.worktrees/feat/x'' False"
    by code_simp+
  have h2: "Remove_stopSession ?H DefaultConfig ''/r/repo'' ?wt (?t2 @ [statusCall (Path ?wt)])
        = (([], []), ?t4)"
    "reply ?H ?t4 (worktreeRemoveCall ?H ''/r/repo'' (Path ?wt) False) = Inr []"
    "\<not> rmDeleteBranch ?opts"
    "Path ?wt = ''/r/repo.worktrees/feat/x''"
    "worktreeRemoveCall ?H ''/r/repo'' ''/r/repo.worktrees/feat/x'' False = ?rm"
    by code_simp+
  have f: "RequireRepo ?F [] = (Inr ''/r/repo'', ?t1)"
    "FindWorktree ?F DefaultConfig (rmTarget ?opts) ?t1 = (Inr ?wt, ?t2)"
    "reply ?F ?t2 (statusCall (Path ?wt)) = Inl (Error ''git status failed: exit status 128'')"
    "Remove_stopSession ?F DefaultConfig ''/r/repo'' ?wt (?t2 @ [statusCall (Path ?wt)])
        = (([], []), ?t4)"
    "reply ?F ?t4 (worktreeRemoveCall ?F ''/r/repo'' (Path ?wt) False)
        = Inl (Error ''fatal: not a working tree'')"
    "\<not> mentions (lowerTable ?F) removeRetryMarks (Error ''fatal: not a working tree'')"
    by code_simp+
  have g: "RequireRepo ?G [] = (Inr ''/r/repo'', ?t1)"
    "FindWorktree ?G DefaultConfig (rmTarget ?opts) ?t1 = (Inr ?wd, ?t2)"
    "reply ?G ?t2 (statusCall (Path ?wd)) = Inr '' M notes.txt''"
    "TrimSpace (TrimRight '' M notes.txt'' [CHR 0x0A]) \<noteq> []"
    "Path ?wd = ''/r/repo.worktrees/feat/x''"
    by code_simp+
  note T = Remove_after_failed_status [of ?H "[]" "''/r/repo.worktrees/feat/x''"
      "Error ''git status failed: exit status 128''" "''/r/repo''" ?t1 DefaultConfig ?opts ?wt ?t2
      "[]" "[]" ?t4 "[]"]
  from T h(1) have 1: "fst (WorktreeDirty ?H ''/r/repo.worktrees/feat/x'' []) = False"
    by simp
  from T h(2,3,4,5) have "worktreeRemoveCall ?H ''/r/repo'' (Path ?wt) False
          \<in> set (drop (length ?t2 + 1) (snd (Remove ?H DefaultConfig ?opts [])))"
    by blast
  then have 2: "worktreeRemoveCall quietHost ''/r/repo'' ''/r/repo.worktrees/feat/x'' False
      \<in> set (snd (Remove ?H DefaultConfig ?opts []))"
    unfolding h(6) by (rule in_set_dropD)
  from T h(2,3,4,5) h2(1,2,3) have "Remove ?H DefaultConfig ?opts []
      = ((Path ?wt, [], None), ?t4 @ [worktreeRemoveCall ?H ''/r/repo'' (Path ?wt) False])"
    by blast
  then have 3: "Remove ?H DefaultConfig ?opts []
      = ((''/r/repo.worktrees/feat/x'', [], None), ?t4 @ [?rm])"
    unfolding h2(4) h2(5) .
  note V = Remove_after_failed_status [of ?F "[]" "''/r/repo.worktrees/feat/x''"
      "Error ''git status failed: exit status 128''" "''/r/repo''" ?t1 DefaultConfig ?opts ?wt ?t2
      "[]" "[]" ?t4 "[]" "Error ''fatal: not a working tree''"]
  from V f h(4) have "Remove ?F DefaultConfig ?opts []
      = (([], [], Some (Error ''fatal: not a working tree'')),
         ?t4 @ [worktreeRemoveCall ?F ''/r/repo'' (Path ?wt) False])"
    by blast
  then have 4: "fst (Remove ?F DefaultConfig ?opts [])
      = ([], [], Some (Error ''fatal: not a working tree''))"
    by simp
  note U = Remove_after_failed_status [of ?G "[]" "''/r/repo.worktrees/feat/x''"
      "Error ''none''" "''/r/repo''" ?t1 DefaultConfig ?opts ?wd ?t2 _ _ _ _ _ _ _ _ "'' M notes.txt''"]
  from U g(1,2,3,4) h(4) have "Remove ?G DefaultConfig ?opts []
      = (([], [], Some (dirtyError ?wd)), ?t2 @ [statusCall (Path ?wd)])"
    by blast
  then have 5: "Remove ?G DefaultConfig ?opts []
      = (([], [], Some (dirtyError ?wd)), ?t2 @ [statusCall ''/r/repo.worktrees/feat/x''])"
    unfolding g(5) .
  from 1 2 3 4 5 show ?thesis by simp
qed

section \<open>The number of lines a capture asks for\<close>

lemma readPaneMeta_height:
  "snd (snd (snd (readPaneMeta (map_sum id (\<lambda>out. TrimRight out [CHR 0x0A]) meta) lines)))
     = (case reportedPaneHeight meta of
          Some ph \<Rightarrow> ph
        | None \<Rightarrow> if lines \<le> 0 then 120 else lines)"
  by (cases meta)
    (auto simp: readPaneMeta_def reportedPaneHeight_def Let_def split: option.splits)

lemma runCmdOutput_eq:
  "runCmdOutput h dir name args t
     = (map_sum id (\<lambda>out. TrimRight out [CHR 0x0A]) (reply h t (Exec dir 0 name args)),
        t @ [Exec dir 0 name args])"
  by (simp add: runCmdOutput_def runCmdBytes_def runCmdBytesWithTimeout_eq split: sum.splits)

text \<open>
  The claim C7 as written fails: with 200 lines asked for and a pane of height 50, the
  capture goes 200 lines back, which is more than 120.
\<close>

theorem capture_cap_counterexample:
  "reportedPaneHeight
      (reply (answering (displayCall ''%1'') (Inr (''1 3 4 50'' @ [CHR 0x0A])) quietHost) []
         (displayCall ''%1'')) = Some 50
   \<and> snd (tmuxCapturePaneWithCursor
        (answering (displayCall ''%1'') (Inr (''1 3 4 50'' @ [CHR 0x0A])) quietHost)
        keepRow ''%1'' 200 [])
     = [displayCall ''%1'', captureCall ''%1'' 200]
   \<and> \<not> (200::int) \<le> 120"
  by code_simp

text \<open>
  Claim C7, amended. The capture makes two calls of tmux, \<open>display-message\<close> and
  \<open>capture-pane\<close>, and goes \<open>S\<close> lines back: when tmux reported the height of the pane,
  \<open>S\<close> is the larger of the lines asked for and that height; when it did not, \<open>S\<close> is
  the lines asked for, or 120 when that number is not positive. There is no upper bound.
\<close>

theorem capture_lines:
  "snd (tmuxCapturePaneWithCursor h overlay paneTarget lines t)
     = t @ [displayCall paneTarget,
            captureCall paneTarget
              (case reportedPaneHeight (reply h t (displayCall paneTarget)) of
                 Some paneHeight \<Rightarrow> max lines paneHeight
               | None \<Rightarrow> if lines \<le> 0 then 120 else lines)]"
proof -
  define meta where "meta = reply h t (displayCall paneTarget)"
  define m where "m = readPaneMeta (map_sum id (\<lambda>out. TrimRight out [CHR 0x0A]) meta) lines"
  obtain cf cx cy ph where m: "m = (cf, cx, cy, ph)" by (cases m) auto
  have ph: "ph = (case reportedPaneHeight meta of
          Some ph \<Rightarrow> ph | None \<Rightarrow> if lines \<le> 0 then 120 else lines)"
    using readPaneMeta_height [of meta lines] by (simp add: m_def [symmetric] m)
  have pos: "reportedPaneHeight meta = Some x \<Longrightarrow> 0 < x" for x
    by (auto simp: reportedPaneHeight_def Let_def split: sum.splits if_splits)
  have S: "(let l = (if lines \<le> 0 then ph else lines) in if l < ph then ph else l)
      = (case reportedPaneHeight meta of
                 Some paneHeight \<Rightarrow> max lines paneHeight
               | None \<Rightarrow> if lines \<le> 0 then 120 else lines)"
    using pos by (cases "reportedPaneHeight meta") (auto simp: ph Let_def max_def)
  have trace: "snd (tmuxCapturePaneWithCursor h overlay paneTarget lines t)
      = t @ [displayCall paneTarget,
             captureCall paneTarget
               (let l = (if lines \<le> 0 then ph else lines) in if l < ph then ph else l)]"
    by (simp add: tmuxCapturePaneWithCursor_def runCmdOutput_eq displayCall_def [symmetric]
        meta_def [symmetric] m_def [symmetric] m captureCall_def split_beta
        split: sum.splits)
  show ?thesis
    unfolding trace meta_def [symmetric] S ..
qed


theorem capture_lines_witness:
  "snd (tmuxCapturePaneWithCursor
        (answering (displayCall ''%1'') (Inr (''1 3 4 50'' @ [CHR 0x0A])) quietHost)
        keepRow ''%1'' 10 [])
     = [displayCall ''%1'', captureCall ''%1'' 50]
   \<and> snd (tmuxCapturePaneWithCursor
        (answering (displayCall ''%1'') (Inr (''1 3 4 50'' @ [CHR 0x0A])) quietHost)
        keepRow ''%1'' 60 [])
     = [displayCall ''%1'', captureCall ''%1'' 60]
   \<and> snd (tmuxCapturePaneWithCursor quietHost keepRow ''%1'' 0 [])
     = [displayCall ''%1'', captureCall ''%1'' 120]"
proof -
  let ?H = "answering (displayCall ''%1'') (Inr (''1 3 4 50'' @ [CHR 0x0A])) quietHost"
  have a: "reportedPaneHeight (reply ?H [] (displayCall ''%1'')) = Some 50"
    "reportedPaneHeight (reply quietHost [] (displayCall ''%1'')) = None"
    by code_simp+
  have 1: "snd (tmuxCapturePaneWithCursor ?H keepRow ''%1'' 10 [])
     = [displayCall ''%1'', captureCall ''%1'' 50]"
    using capture_lines [of ?H keepRow "''%1''" 10 "[]"] unfolding a by simp
  have 2: "snd (tmuxCapturePaneWithCursor ?H keepRow ''%1'' 60 [])
     = [displayCall ''%1'', captureCall ''%1'' 60]"
    using capture_lines [of ?H keepRow "''%1''" 60 "[]"] unfolding a by simp
  have 3: "snd (tmuxCapturePaneWithCursor quietHost keepRow ''%1'' 0 [])
     = [displayCall ''%1'', captureCall ''%1'' 120]"
    using capture_lines [of quietHost keepRow "''%1''" 0 "[]"] unfolding a by simp
  from 1 2 3 show ?thesis by blast
qed

section \<open>Ready or busy\<close>

















section \<open>Creating a working copy of an existing branch\<close>

lemma CreateWorktreeFromExisting_existing_path:
  assumes "reply h t (Stat p) = Inr info"
  shows "CreateWorktreeFromExisting h repoRoot b p t
           = (Some (Error (''target path already exists: '' @ p)), t @ [Stat p])"
  using assms by (simp add: CreateWorktreeFromExisting_def)

text \<open>
  Claim C1. The claim says that \<open>NewWorktree\<close> with \<open>FromBranch = B\<close> returns the path
  of the working copy that the branch already has, without error, and that a second call in a
  row returns the same path. The code does neither. On a host where a path exists once
  \<open>git worktree add\<close> has run, the first call for the branch \<open>shared\<close> returns the
  path \<open>/r/repo.worktrees/shared\<close>, and the second call, made on the trace the first one
  left, stops at \<open>os.Stat\<close> with the error \<open>target path already exists\<close>. On a host
  where the branch \<open>feature/existing\<close> is checked out at another path, the call runs
  \<open>git worktree add\<close>, prunes, runs it again and returns the error of git.
\<close>

theorem NewWorktree_existing_branch_fails:
  "fst (NewWorktree afterAddHost DefaultConfig (fromBranch ''shared'') [])
     = Inr (''shared'', ''/r/repo.worktrees/shared'')
   \<and> fst (NewWorktree afterAddHost DefaultConfig (fromBranch ''shared'')
            (snd (NewWorktree afterAddHost DefaultConfig (fromBranch ''shared'') [])))
     = Inl (Error ''target path already exists: /r/repo.worktrees/shared'')
   \<and> fst (NewWorktree checkedOutHost DefaultConfig (fromBranch ''feature/existing'') [])
     = Inl (Error (''git worktree add failed: exit status 128: ''
                   @ ''fatal: feature/existing is already checked out at /r/existing-worktree''))
   \<and> length (filter isWorktreeAdd
         (snd (NewWorktree checkedOutHost DefaultConfig (fromBranch ''feature/existing'') []))) = 2"
  by code_simp

section \<open>Copying untracked and ignored files\<close>

lemma strLess_irrefl: "\<not> strLess a a"
  by (induction a) auto



lemma strLess_total: "a \<noteq> b \<Longrightarrow> strLess a b \<or> strLess b a"
proof (induction a b rule: strLess.induct)
  case (4 c cs d ds)
  then show ?case using of_char_eq_iff [of c d, where 'a = nat] by (auto simp: not_less)
qed auto



















end
